theory Spec2Isabelle
  imports Main "HOL-Library.AList" "HOL-Library.Word"
begin

section \<open>Data model of \<^verbatim>\<open>v3/client_common.go\<close>\<close>

text \<open>
  The lock client talks to DynamoDB through the interface \<^verbatim>\<open>DynamoDBClient\<close>, reads the
  wall clock, draws random strings and sleeps. The embedding makes each of these explicit:
  a client record (the Go struct \<^verbatim>\<open>commonClient\<close>, mutable fields included) and an
  environment record (the store behind the interface, the clock, the entropy source and the
  trace of everything the client did to the outside world) are passed in and returned.
  Logging is not modelled: it has no effect on any value the client computes.
\<close>

type_synonym byte = "8 word"

text \<open>A Go byte slice; \<open>None\<close> is the nil slice, which the code tests for.\<close>
type_synonym bytes = "byte list option"

text \<open>
  \<^verbatim>\<open>time.Duration\<close>: a signed 64-bit count of nanoseconds, kept as an \<open>int\<close> with
  the wrap-around or saturation of each arithmetic operation written out where the code
  computes. \<^verbatim>\<open>time.Time\<close>: nanoseconds since the zero \<^verbatim>\<open>time.Time{}\<close>.
\<close>
type_synonym Duration = int
type_synonym Time = int

definition Second :: Duration where
  "Second = 1000000000"

definition wrap64 :: "int \<Rightarrow> int" where
  "wrap64 x = (x + 2 ^ 63) mod 2 ^ 64 - 2 ^ 63"

definition saturate64 :: "int \<Rightarrow> int" where
  "saturate64 x = (if x > 2 ^ 63 - 1 then 2 ^ 63 - 1 else if x < - (2 ^ 63) then - (2 ^ 63) else x)"

text \<open>
  \<^verbatim>\<open>types.AttributeValue\<close> of the AWS SDK: the members the client reads or writes
  (\<^verbatim>\<open>S\<close>, \<^verbatim>\<open>B\<close>) and the scalar members a user may place in additional attributes.
\<close>
datatype AttributeValue =
    AttributeValueMemberS string
  | AttributeValueMemberB bytes
  | AttributeValueMemberN string
  | AttributeValueMemberBOOL bool
  | AttributeValueMemberNULL

text \<open>\<^verbatim>\<open>map[string]types.AttributeValue\<close>.\<close>
type_synonym item = "string \<rightharpoonup> AttributeValue"

definition attrData :: string where "attrData = ''data''"
definition attrOwnerName :: string where "attrOwnerName = ''ownerName''"
definition attrLeaseDuration :: string where "attrLeaseDuration = ''leaseDuration''"
definition attrRecordVersionNumber :: string where "attrRecordVersionNumber = ''recordVersionNumber''"
definition attrIsReleased :: string where "attrIsReleased = ''isReleased''"

definition defaultBuffer :: Duration where
  "defaultBuffer = 1 * Second"

definition defaultLeaseDuration :: Duration where
  "defaultLeaseDuration = 20 * Second"

definition defaultHeartbeatPeriod :: Duration where
  "defaultHeartbeatPeriod = 5 * Second"

text \<open>
  Condition and update expressions, as the calls to the \<^verbatim>\<open>expression\<close> package build
  them. A name operand is the attribute name, a value operand the marshalled attribute value
  (\<^verbatim>\<open>expression.Value("1")\<close> is the string member \<open>S "1"\<close>).
\<close>
datatype ConditionBuilder =
    AttributeExists string
  | AttributeNotExists string
  | Equal string AttributeValue
  | And ConditionBuilder ConditionBuilder
  | Or ConditionBuilder ConditionBuilder

text \<open>\<^verbatim>\<open>expression.Set(name, value)\<close>, chained: the list of assignments in order.\<close>
type_synonym UpdateBuilder = "(string \<times> AttributeValue) list"

definition dataAttr :: string where "dataAttr = attrData"
definition ownerNameAttr :: string where "ownerNameAttr = attrOwnerName"
definition leaseDurationAttr :: string where "leaseDurationAttr = attrLeaseDuration"
definition rvnAttr :: string where "rvnAttr = attrRecordVersionNumber"
definition isReleasedAttr :: string where "isReleasedAttr = attrIsReleased"

definition isReleasedAttrVal :: AttributeValue where
  "isReleasedAttrVal = AttributeValueMemberS ''1''"

datatype KeyType = KeyTypeHash | KeyTypeRange

datatype ScalarAttributeType = ScalarAttributeTypeS

datatype BillingMode = BillingModePayPerRequest | BillingModeProvisioned

text \<open>
  The five methods of \<^verbatim>\<open>DynamoDBClient\<close>, each named by its input struct and carrying
  the fields of it that the client fills in.
\<close>
datatype request =
    GetItemInput (ConsistentRead: bool) (TableName: string) (Key: item)
  | PutItemInput (Item: item) (TableName: string) (ConditionExpression: ConditionBuilder)
  | UpdateItemInput (TableName: string) (Key: item) (UpdateExpression: UpdateBuilder)
      (ConditionExpression: ConditionBuilder)
  | DeleteItemInput (TableName: string) (Key: item) (ConditionExpression: ConditionBuilder)
  | CreateTableInput (TableName: string) (KeySchema: "(string \<times> KeyType) list")
      (Billing: BillingMode) (AttributeDefinitions: "(string \<times> ScalarAttributeType) list")
      (ProvisionedThroughput: "(int \<times> int) option") (Tags: "(string \<times> string) list option")

text \<open>
  Go \<^verbatim>\<open>error\<close> values. \<^verbatim>\<open>ErrClientClosed\<close> and the two \<^verbatim>\<open>fmt.Errorf\<close> errors are
  declared in \<^verbatim>\<open>client_common.go\<close>; \<^verbatim>\<open>ErrCannotReleaseNullLock\<close>, \<^verbatim>\<open>ErrOwnerMismatched\<close>,
  \<^verbatim>\<open>LockNotGrantedError{msg, cause}\<close> and \<^verbatim>\<open>TimeoutError{Age}\<close> are used there under these
  names. \<open>ConditionalCheckFailedException\<close> and \<open>DynamoDBError\<close> are what a store call may
  return, \<open>ContextCanceled\<close> and \<open>ContextDeadlineExceeded\<close> what \<^verbatim>\<open>ctx.Err()\<close> may.
\<close>
datatype error =
    ErrClientClosed
  | ErrCannotReleaseNullLock
  | ErrOwnerMismatched
  | ErrAdditionalAttribute string
  | ErrCannotParseLeaseDuration string
  | LockNotGrantedError string "error option"
  | TimeoutError Duration
  | ConditionalCheckFailedException
  | DynamoDBError string
  | ContextCanceled
  | ContextDeadlineExceeded

datatype callback = Callback nat

record sessionMonitor =
  safeTime :: Duration
  callback :: "callback option"

text \<open>
  The handle \<^verbatim>\<open>Lock\<close>, with the fields that the struct literals of
  \<^verbatim>\<open>putLockItemAndStartSessionMonitor\<close> and \<^verbatim>\<open>createLockItem\<close> set. The closure
  \<^verbatim>\<open>releaseLock\<close> and the mutex \<^verbatim>\<open>semaphore\<close> are left out: the first only calls back
  into \<^verbatim>\<open>ReleaseLock\<close>, the second has no effect in a sequential run. A \<^verbatim>\<open>*Lock\<close> is a
  \<open>Lock option\<close>; a function that writes through the pointer returns the updated handle.
\<close>
record Lock =
  lock_partitionKey :: string
  lock_data :: bytes
  lock_deleteLockOnRelease :: bool
  lock_ownerName :: string
  lock_leaseDuration :: Duration
  lock_lookupTime :: Time
  lock_recordVersionNumber :: string
  lock_isReleased :: bool
  lock_additionalAttributes :: item
  lock_sessionMonitor :: "sessionMonitor option"

text \<open>\<^verbatim>\<open>&Lock{}\<close>: every field at its zero value.\<close>
definition emptyLock :: Lock where
  "emptyLock = \<lparr>lock_partitionKey = [], lock_data = None, lock_deleteLockOnRelease = False,
     lock_ownerName = [], lock_leaseDuration = 0, lock_lookupTime = 0,
     lock_recordVersionNumber = [], lock_isReleased = False,
     lock_additionalAttributes = Map.empty, lock_sessionMonitor = None\<rparr>"

text \<open>
  What the client did to the outside world, oldest first: store calls, completed waits of
  the acquisition loop, session monitors started and cancelled, and the call of
  \<^verbatim>\<open>stopHeartbeat\<close>.
\<close>
datatype event =
    Call request
  | Sleep Duration
  | SessionMonitorStarted string
  | SessionMonitorCancelled string
  | StopHeartbeat

text \<open>
  The environment. \<open>dynamoDB\<close> is the implementation behind the interface, a transition
  function on its own state \<open>db\<close>; a successful \<^verbatim>\<open>GetItem\<close> answers with the stored item
  (\<open>None\<close> for \<^verbatim>\<open>res.Item == nil\<close>), the outputs of the writes are discarded by the
  client. The context handed down to a store call is not modelled: the store is free to fail
  in any way at any call. \<open>clock\<close> is the sequence of readings that successive calls of \<^verbatim>\<open>time.Now()\<close>
  return, \<open>entropy\<close> the sequence of numbers \<^verbatim>\<open>crypto/rand\<close> delivers. \<open>Duration_String\<close>
  and \<open>ParseDuration\<close> stand for the two functions of package \<^verbatim>\<open>time\<close>.
\<close>
record 's env =
  dynamoDB :: "request \<Rightarrow> 's \<Rightarrow> (error + item option) \<times> 's"
  db :: 's
  trace :: "event list"
  clock :: "nat \<Rightarrow> Time"
  clockReads :: nat
  entropy :: "nat \<Rightarrow> nat"
  entropyReads :: nat
  Duration_String :: "Duration \<Rightarrow> string"
  ParseDuration :: "string \<Rightarrow> Duration option"

text \<open>
  \<^verbatim>\<open>commonClient\<close>. \<open>locks\<close> and \<open>sessionMonitorCancellations\<close> are the two
  \<^verbatim>\<open>sync.Map\<close>s: the registry as an association list with unique keys, whose order is the
  order in which \<^verbatim>\<open>Range\<close> visits it, and the names that have a cancel function stored.
  \<open>closeOnceDone\<close> is the state of \<^verbatim>\<open>closeOnce\<close>.
\<close>
record client =
  tableName :: string
  partitionKeyName :: string
  leaseDuration :: Duration
  heartbeatPeriod :: Duration
  ownerName :: string
  locks :: "(string \<times> Lock) list"
  sessionMonitorCancellations :: "string list"
  closeOnceDone :: bool
  closed :: bool

record acquireLockOptions =
  alo_partitionKey :: string
  alo_data :: bytes
  alo_replaceData :: bool
  alo_failIfLocked :: bool
  alo_deleteLockOnRelease :: bool
  alo_refreshPeriod :: Duration
  alo_additionalTimeToWaitForLock :: Duration
  alo_additionalAttributes :: item
  alo_sessionMonitor :: "sessionMonitor option"

type_synonym AcquireLockOption = "acquireLockOptions \<Rightarrow> acquireLockOptions"

record getLockOptions =
  glo_partitionKey :: string
  glo_deleteLockOnRelease :: bool
  glo_sessionMonitor :: "sessionMonitor option"
  glo_start :: Time
  glo_replaceData :: bool
  glo_data :: bytes
  glo_additionalAttributes :: item
  glo_failIfLocked :: bool
  glo_millisecondsToWait :: Duration
  glo_refreshPeriodDuration :: Duration
  glo_lockTryingToBeAcquired :: "Lock option"
  glo_alreadySleptOnceForOneLeasePeriod :: bool

record releaseLockOptions =
  rlo_lockItem :: "Lock option"
  rlo_deleteLock :: bool
  rlo_data :: bytes

type_synonym ReleaseLockOption = "releaseLockOptions \<Rightarrow> releaseLockOptions"

text \<open>
  \<^verbatim>\<open>context.Context\<close>: whether the context is done, and with which error, as a function
  of the number of events the client has produced so far.
\<close>
type_synonym Context = "nat \<Rightarrow> error option"

definition ctx_Err :: "Context \<Rightarrow> 's env \<Rightarrow> error option" where
  "ctx_Err ctx e = ctx (length (trace e))"

section \<open>Primitives of the environment\<close>

text \<open>\<^verbatim>\<open>time.Now()\<close>: the next reading of the clock.\<close>
definition time_Now :: "'s env \<Rightarrow> Time \<times> 's env" where
  "time_Now e = (clock e (clockReads e), e\<lparr>clockReads := Suc (clockReads e)\<rparr>)"

text \<open>\<^verbatim>\<open>time.Since(t)\<close> is \<^verbatim>\<open>time.Now().Sub(t)\<close>, which saturates at the bounds of a Duration.\<close>
definition time_Since :: "Time \<Rightarrow> 's env \<Rightarrow> Duration \<times> 's env" where
  "time_Since t e = (case time_Now e of (n, e') \<Rightarrow> (saturate64 (n - t), e'))"

text \<open>A call of a method of \<^verbatim>\<open>c.dynamoDB\<close>: the store answers and moves on, the trace grows.\<close>
definition call :: "request \<Rightarrow> 's env \<Rightarrow> (error + item option) \<times> 's env" where
  "call req e =
     (case dynamoDB e req (db e) of
        (r, s') \<Rightarrow> (r, e\<lparr>db := s', trace := trace e @ [Call req]\<rparr>))"

definition letterRunes :: string where
  "letterRunes = ''1234567890abcdefghijklmnopqrstuvwxyzABCDEFGHIJKLMNOPQRSTUVWXYZ''"

text \<open>\<^verbatim>\<open>rand.Int(rand.Reader, max)\<close>: a number below \<open>max\<close> from the entropy source.\<close>
definition rand_Int :: "nat \<Rightarrow> 's env \<Rightarrow> nat \<times> 's env" where
  "rand_Int n e = (entropy e (entropyReads e) mod n, e\<lparr>entropyReads := Suc (entropyReads e)\<rparr>)"

fun randString :: "nat \<Rightarrow> 's env \<Rightarrow> string \<times> 's env" where
  "randString 0 e = ([], e)"
| "randString (Suc n) e =
     (case rand_Int (length letterRunes) e of
        (r, e') \<Rightarrow> (case randString n e' of (s, e'') \<Rightarrow> (letterRunes ! r # s, e'')))"

definition generateRecordVersionNumber :: "client \<Rightarrow> 's env \<Rightarrow> string \<times> 's env" where
  "generateRecordVersionNumber c e = randString 32 e"

definition stringAttrValue :: "string \<Rightarrow> AttributeValue" where
  "stringAttrValue s = AttributeValueMemberS s"

definition bytesAttrValue :: "bytes \<Rightarrow> AttributeValue" where
  "bytesAttrValue b = AttributeValueMemberB b"

text \<open>The argument is \<open>None\<close> for the nil interface that a missing map key yields.\<close>
fun readStringAttr :: "AttributeValue option \<Rightarrow> string" where
  "readStringAttr (Some (AttributeValueMemberS s)) = s"
| "readStringAttr _ = []"

fun readBytesAttr :: "AttributeValue option \<Rightarrow> bytes" where
  "readBytesAttr (Some (AttributeValueMemberB b)) = b"
| "readBytesAttr _ = None"

section \<open>Methods of the handle and the error helper\<close>

text \<open>
  Modelled from the spec: \<^verbatim>\<open>Lock.isExpired\<close> is not in the two source files. The spec
  (4.3): ``returns true if isReleased OR now - lookupTime >= leaseDuration''.
\<close>
definition isExpired :: "Lock \<Rightarrow> 's env \<Rightarrow> bool \<times> 's env" where
  "isExpired l e =
     (if lock_isReleased l then (True, e)
      else (case time_Since (lock_lookupTime l) e of
              (age, e') \<Rightarrow> (age \<ge> lock_leaseDuration l, e')))"

text \<open>
  Modelled from the spec: \<^verbatim>\<open>Lock.uniqueIdentifier\<close> is not in the two source files. The spec
  (4.3): ``partitionKey (plus sortKey when configured)''. No handle that the source builds
  has a sort key, so the identifier is the partition key; \<^verbatim>\<open>get\<close> looks the registry up
  under the partition key too.
\<close>
definition uniqueIdentifier :: "Lock \<Rightarrow> string" where
  "uniqueIdentifier l = lock_partitionKey l"

text \<open>
  Modelled from the spec: \<^verbatim>\<open>Lock.AdditionalAttributes\<close> is not in the two source files. The
  spec (4.4, step 3): ``existing row attributes first, then caller's overlays''; the source
  calls it on the handle of the current read, nil when there is no row, and a nil handle
  has no attributes.
\<close>
definition AdditionalAttributes :: "Lock option \<Rightarrow> item" where
  "AdditionalAttributes l = (case l of None \<Rightarrow> Map.empty | Some l' \<Rightarrow> lock_additionalAttributes l')"

text \<open>
  Modelled from the spec: \<^verbatim>\<open>Lock.updateRVN\<close> is not in the two source files. The spec (4.3):
  ``updateRVN(newRVN, newLookupTime, newLeaseDuration): used by heartbeat and readers to
  advance the handle in place''.
\<close>
definition updateRVN :: "Lock \<Rightarrow> string \<Rightarrow> Time \<Rightarrow> Duration \<Rightarrow> Lock" where
  "updateRVN l newRVN newLookupTime newLeaseDuration =
     l\<lparr>lock_recordVersionNumber := newRVN, lock_lookupTime := newLookupTime,
       lock_leaseDuration := newLeaseDuration\<rparr>"

text \<open>
  Modelled from the spec: \<^verbatim>\<open>parseDynamoDBError\<close> is not in the two source files. The spec
  (4.1, 7): a condition-check failure of the store is a distinct error kind, ``internally
  converted to LockNotGranted''; any other store failure is ``propagated''.
\<close>
definition parseDynamoDBError :: "error \<Rightarrow> string \<Rightarrow> error" where
  "parseDynamoDBError err msg =
     (if err = ConditionalCheckFailedException then LockNotGrantedError msg (Some err) else err)"

text \<open>
  \<^verbatim>\<open>errors.As(err, &errNotGranted)\<close> with \<^verbatim>\<open>errNotGranted\<close> a \<^verbatim>\<open>*LockNotGrantedError\<close>:
  the error itself is one (no other error of the model wraps one).
\<close>
fun errors_As_LockNotGranted :: "error \<Rightarrow> bool" where
  "errors_As_LockNotGranted (LockNotGrantedError msg cause) = True"
| "errors_As_LockNotGranted _ = False"

section \<open>Reading a lock row\<close>

text \<open>The one read request the client ever builds: strongly consistent, keyed by the partition key.\<close>
abbreviation getItemRequest :: "client \<Rightarrow> string \<Rightarrow> request" where
  "getItemRequest c partitionKey \<equiv>
     GetItemInput True (tableName c) [partitionKeyName c \<mapsto> stringAttrValue partitionKey]"

definition readFromDynamoDB :: "client \<Rightarrow> string \<Rightarrow> 's env \<Rightarrow> (error + item option) \<times> 's env" where
  "readFromDynamoDB c partitionKey e =
     (let dynamoDBKey = [partitionKeyName c \<mapsto> stringAttrValue partitionKey]
      in call (GetItemInput True (tableName c) dynamoDBKey) e)"

text \<open>
  The deletions are written one after the other as in the source, each read on the map the
  earlier deletions have left.
\<close>
definition createLockItem :: "client \<Rightarrow> getLockOptions \<Rightarrow> item \<Rightarrow> 's env \<Rightarrow> (error + Lock) \<times> 's env" where
  "createLockItem c opt item0 e =
     (let data = (case item0 attrData of Some r \<Rightarrow> readBytesAttr (Some r) | None \<Rightarrow> None);
          item1 = (case item0 attrData of Some r \<Rightarrow> item0(attrData := None) | None \<Rightarrow> item0);
          ownerName' = readStringAttr (item1 attrOwnerName);
          item2 = item1(attrOwnerName := None);
          leaseDuration' = readStringAttr (item2 attrLeaseDuration);
          item3 = item2(attrLeaseDuration := None);
          recordVersionNumber = readStringAttr (item3 attrRecordVersionNumber);
          item4 = item3(attrRecordVersionNumber := None);
          isReleased = (item4 attrIsReleased \<noteq> None);
          item5 = item4(attrIsReleased := None);
          item6 = item5(partitionKeyName c := None)
      in case time_Now e of
           (lookupTime, e') \<Rightarrow>
             (case (if leaseDuration' \<noteq> [] then ParseDuration e' leaseDuration' else Some 0) of
                None \<Rightarrow> (Inl (ErrCannotParseLeaseDuration leaseDuration'), e')
              | Some parsedLeaseDuration \<Rightarrow>
                  (Inr \<lparr>lock_partitionKey = glo_partitionKey opt,
                        lock_data = data,
                        lock_deleteLockOnRelease = glo_deleteLockOnRelease opt,
                        lock_ownerName = ownerName',
                        lock_leaseDuration = parsedLeaseDuration,
                        lock_lookupTime = lookupTime,
                        lock_recordVersionNumber = recordVersionNumber,
                        lock_isReleased = isReleased,
                        lock_additionalAttributes = item6,
                        lock_sessionMonitor = None\<rparr>, e')))"

text \<open>
  Whether the lease duration of a row can be decoded: the attribute is missing, not a string
  or empty (the duration is then zero), or \<^verbatim>\<open>time.ParseDuration\<close> accepts it.
\<close>
definition leaseParses :: "'s env \<Rightarrow> item \<Rightarrow> bool" where
  "leaseParses e row =
     (case readStringAttr (row attrLeaseDuration) of
        [] \<Rightarrow> True
      | x # xs \<Rightarrow> (case ParseDuration e (x # xs) of None \<Rightarrow> False | Some d \<Rightarrow> True))"

text \<open>The result \<open>Inr None\<close> is the pair \<^verbatim>\<open>(nil, nil)\<close>: no row.\<close>
definition getLockFromDynamoDB :: "client \<Rightarrow> getLockOptions \<Rightarrow> 's env \<Rightarrow> (error + Lock option) \<times> 's env" where
  "getLockFromDynamoDB c opt e =
     (case readFromDynamoDB c (glo_partitionKey opt) e of
        (Inl err, e1) \<Rightarrow> (Inl err, e1)
      | (Inr None, e1) \<Rightarrow> (Inr None, e1)
      | (Inr (Some item), e1) \<Rightarrow>
          (case createLockItem c opt item e1 of
             (Inl err, e2) \<Rightarrow> (Inl err, e2)
           | (Inr l, e2) \<Rightarrow> (Inr (Some l), e2)))"

section \<open>Session monitors\<close>

text \<open>
  The checker of \<^verbatim>\<open>lockSessionMonitorChecker\<close> runs in a goroutine of its own; the model
  records that it was started and, in \<^verbatim>\<open>removeKillSessionMonitor\<close>, that its cancel
  function was called. That the goroutine removes its name from the map when it ends is
  not modelled.
\<close>
definition tryAddSessionMonitor :: "client \<Rightarrow> 's env \<Rightarrow> string \<Rightarrow> Lock \<Rightarrow> client \<times> 's env" where
  "tryAddSessionMonitor c e lockName lock =
     (case lock_sessionMonitor lock of
        None \<Rightarrow> (c, e)
      | Some sm \<Rightarrow>
          (case callback sm of
             None \<Rightarrow> (c, e)
           | Some cb \<Rightarrow>
               (c\<lparr>sessionMonitorCancellations := List.insert lockName (sessionMonitorCancellations c)\<rparr>,
                e\<lparr>trace := trace e @ [SessionMonitorStarted lockName]\<rparr>)))"

definition removeKillSessionMonitor :: "client \<Rightarrow> 's env \<Rightarrow> string \<Rightarrow> 's env" where
  "removeKillSessionMonitor c e monitorName =
     (if List.member (sessionMonitorCancellations c) monitorName
      then e\<lparr>trace := trace e @ [SessionMonitorCancelled monitorName]\<rparr>
      else e)"

section \<open>The acquisition engine\<close>

definition msgAlreadyAcquired :: string where
  "msgAlreadyAcquired = ''cannot store lock item: lock already acquired by other client''"

definition msgNotRetry :: string where
  "msgNotRetry = ''Didn'' @ [CHR 0x27] @ ''t acquire lock because it is locked and request is configured not to retry.''"

definition msgAfterSleeping :: string where
  "msgAfterSleeping = ''Didn'' @ [CHR 0x27] @ ''t acquire lock after sleeping''"

definition putLockItemAndStartSessionMonitor ::
  "client \<Rightarrow> 's env \<Rightarrow> item \<Rightarrow> string \<Rightarrow> bool \<Rightarrow> bytes \<Rightarrow> string \<Rightarrow> sessionMonitor option \<Rightarrow> request
     \<Rightarrow> (error + Lock) \<times> client \<times> 's env" where
  "putLockItemAndStartSessionMonitor c e additionalAttributes partitionKey deleteLockOnRelease
       newLockData recordVersionNumber sessionMonitor putItemRequest =
     (case time_Now e of
        (lastUpdatedTime, e1) \<Rightarrow>
          (case call putItemRequest e1 of
             (Inl err, e2) \<Rightarrow> (Inl (parseDynamoDBError err msgAlreadyAcquired), c, e2)
           | (Inr out, e2) \<Rightarrow>
               (let lockItem = \<lparr>lock_partitionKey = partitionKey,
                                 lock_data = newLockData,
                                 lock_deleteLockOnRelease = deleteLockOnRelease,
                                 lock_ownerName = ownerName c,
                                 lock_leaseDuration = leaseDuration c,
                                 lock_lookupTime = lastUpdatedTime,
                                 lock_recordVersionNumber = recordVersionNumber,
                                 lock_isReleased = False,
                                 lock_additionalAttributes = additionalAttributes,
                                 lock_sessionMonitor = sessionMonitor\<rparr>;
                    c1 = c\<lparr>locks := AList.update (uniqueIdentifier lockItem) lockItem (locks c)\<rparr>
                in case tryAddSessionMonitor c1 e2 (uniqueIdentifier lockItem) lockItem of
                     (c2, e3) \<Rightarrow> (Inr lockItem, c2, e3))))"

definition upsertAndMonitorExpiredLock ::
  "client \<Rightarrow> 's env \<Rightarrow> item \<Rightarrow> string \<Rightarrow> bool \<Rightarrow> Lock \<Rightarrow> bytes \<Rightarrow> item \<Rightarrow> string \<Rightarrow> sessionMonitor option
     \<Rightarrow> (error + Lock) \<times> client \<times> 's env" where
  "upsertAndMonitorExpiredLock c e additionalAttributes partitionKey deleteLockOnRelease
       existingLock newLockData item recordVersionNumber sessionMonitor =
     (let cond = And (AttributeExists (partitionKeyName c))
                     (Equal rvnAttr (AttributeValueMemberS (lock_recordVersionNumber existingLock)));
          putItemRequest = PutItemInput item (tableName c) cond
      in putLockItemAndStartSessionMonitor c e additionalAttributes partitionKey
           deleteLockOnRelease newLockData recordVersionNumber sessionMonitor putItemRequest)"

definition upsertAndMonitorNewOrReleasedLock ::
  "client \<Rightarrow> 's env \<Rightarrow> item \<Rightarrow> string \<Rightarrow> bool \<Rightarrow> bytes \<Rightarrow> item \<Rightarrow> string \<Rightarrow> sessionMonitor option
     \<Rightarrow> (error + Lock) \<times> client \<times> 's env" where
  "upsertAndMonitorNewOrReleasedLock c e additionalAttributes partitionKey deleteLockOnRelease
       newLockData item recordVersionNumber sessionMonitor =
     (let cond = Or (AttributeNotExists (partitionKeyName c))
                    (And (AttributeExists (partitionKeyName c))
                         (Equal isReleasedAttr isReleasedAttrVal));
          req = PutItemInput item (tableName c) cond
      in putLockItemAndStartSessionMonitor c e additionalAttributes partitionKey
           deleteLockOnRelease newLockData recordVersionNumber sessionMonitor req)"

text \<open>
  How \<^verbatim>\<open>storeLock\<close> hands on the result of either upsert: a \<^verbatim>\<open>LockNotGrantedError\<close>
  becomes \<^verbatim>\<open>(nil, nil)\<close>, any other error and a lock are returned as they are.
\<close>
definition swallowNotGranted :: "error + Lock \<Rightarrow> error + Lock option" where
  "swallowNotGranted r =
     (case r of
        Inl err \<Rightarrow> (if errors_As_LockNotGranted err then Inr None else Inl err)
      | Inr l \<Rightarrow> Inr (Some l))"

text \<open>The last statement of \<^verbatim>\<open>storeLock\<close>: the check of the time budget.\<close>
definition budgetCheck :: "getLockOptions \<Rightarrow> 's env \<Rightarrow> (error + Lock option) \<times> 's env" where
  "budgetCheck g e =
     (case time_Since (glo_start g) e of
        (t, e') \<Rightarrow>
          (if t > glo_millisecondsToWait g
           then (Inl (LockNotGrantedError msgAfterSleeping (Some (TimeoutError t))), e')
           else (Inr None, e')))"

text \<open>
  The three blocks at the head of \<^verbatim>\<open>storeLock\<close>, each under a name of its own: the
  choice of the payload, the merge of the additional attributes (the existing row's first,
  the caller's copied over them: \<open>++\<close>, where the right map wins), and the item.
\<close>
definition newLockDataOf :: "getLockOptions \<Rightarrow> Lock option \<Rightarrow> bytes" where
  "newLockDataOf g existingLock =
     (let newLockData0 =
            (if glo_replaceData g then glo_data g
             else (case existingLock of Some ex \<Rightarrow> lock_data ex | None \<Rightarrow> None))
      in if newLockData0 = None then glo_data g else newLockData0)"

definition mergeAdditionalAttributes :: "getLockOptions \<Rightarrow> Lock option \<Rightarrow> item" where
  "mergeAdditionalAttributes g existingLock =
     (Map.empty ++ AdditionalAttributes existingLock) ++ glo_additionalAttributes g"

definition buildItem :: "client \<Rightarrow> 's env \<Rightarrow> getLockOptions \<Rightarrow> string \<Rightarrow> bytes \<Rightarrow> item" where
  "buildItem c e g recordVersionNumber newLockData =
     (let item0 = Map.empty ++ glo_additionalAttributes g;
          item1 = item0(partitionKeyName c \<mapsto> stringAttrValue (glo_partitionKey g));
          item2 = item1(attrOwnerName \<mapsto> stringAttrValue (ownerName c));
          item3 = item2(attrLeaseDuration \<mapsto> stringAttrValue (Duration_String e (leaseDuration c)));
          item4 = item3(attrRecordVersionNumber \<mapsto> stringAttrValue recordVersionNumber)
      in if newLockData \<noteq> None then item4(attrData \<mapsto> bytesAttrValue newLockData) else item4)"

text \<open>
  One attempt. The options are passed by pointer and written to, so they are returned.
  \<open>newOrReleased\<close> is the body of the first \<^verbatim>\<open>if\<close>, taken when there is no row or the
  row is released. In the \<^verbatim>\<open>else if\<close> chain, \<^verbatim>\<open>isExpired\<close> is evaluated only when the
  version numbers are equal (\<^verbatim>\<open>&&\<close>), and the last condition, that they differ, holds
  exactly when the first conjunct failed.
\<close>
definition storeLock ::
  "client \<Rightarrow> 's env \<Rightarrow> getLockOptions \<Rightarrow> (error + Lock option) \<times> getLockOptions \<times> client \<times> 's env" where
  "storeLock c e g =
     (case getLockFromDynamoDB c g e of
        (Inl err, e1) \<Rightarrow> (Inl err, g, c, e1)
      | (Inr existingLock, e1) \<Rightarrow>
          (let newLockData = newLockDataOf g existingLock;
               g1 = g\<lparr>glo_additionalAttributes := mergeAdditionalAttributes g existingLock\<rparr>
           in case generateRecordVersionNumber c e1 of
                (recordVersionNumber, e2) \<Rightarrow>
                  (let item = buildItem c e2 g1 recordVersionNumber newLockData;
                       newOrReleased =
                         (case upsertAndMonitorNewOrReleasedLock c e2 (glo_additionalAttributes g1)
                                 (glo_partitionKey g1) (glo_deleteLockOnRelease g1) newLockData item
                                 recordVersionNumber (glo_sessionMonitor g1) of
                            (r, c', e3) \<Rightarrow> (swallowNotGranted r, g1, c', e3))
                   in case existingLock of
                        None \<Rightarrow> newOrReleased
                      | Some ex \<Rightarrow>
                          if lock_isReleased ex then newOrReleased
                          else
                            (case glo_lockTryingToBeAcquired g1 of
                               None \<Rightarrow>
                                 if glo_failIfLocked g1
                                 then (Inl (LockNotGrantedError msgNotRetry None), g1, c, e2)
                                 else
                                   (let g2 = g1\<lparr>glo_lockTryingToBeAcquired := Some ex\<rparr>;
                                        g3 = (if \<not> glo_alreadySleptOnceForOneLeasePeriod g2
                                              then g2\<lparr>glo_alreadySleptOnceForOneLeasePeriod := True,
                                                      glo_millisecondsToWait :=
                                                        wrap64 (glo_millisecondsToWait g2 + lock_leaseDuration ex)\<rparr>
                                              else g2)
                                    in case budgetCheck g3 e2 of (r, e3) \<Rightarrow> (r, g3, c, e3))
                             | Some inFlight \<Rightarrow>
                                 if lock_recordVersionNumber inFlight = lock_recordVersionNumber ex
                                 then
                                   (case isExpired inFlight e2 of
                                      (expired, e3) \<Rightarrow>
                                        if expired
                                        then
                                          (case upsertAndMonitorExpiredLock c e3 (glo_additionalAttributes g1)
                                                  (glo_partitionKey g1) (glo_deleteLockOnRelease g1) ex
                                                  newLockData item recordVersionNumber (glo_sessionMonitor g1) of
                                             (r, c', e4) \<Rightarrow> (swallowNotGranted r, g1, c', e4))
                                        else (case budgetCheck g1 e3 of (r, e4) \<Rightarrow> (r, g1, c, e4)))
                                 else
                                   (let g2 = g1\<lparr>glo_lockTryingToBeAcquired := Some ex\<rparr>
                                    in case budgetCheck g2 e2 of (r, e3) \<Rightarrow> (r, g2, c, e3))))))"

text \<open>
  The loop of \<^verbatim>\<open>acquireLock\<close>. It may run forever, so it takes fuel, the number of attempts
  it may make: \<open>None\<close> is the loop still running when the fuel is spent. A wait that the
  context interrupts returns the context's error; a wait that completes is an event.
\<close>
fun acquireLoop ::
  "nat \<Rightarrow> Context \<Rightarrow> client \<Rightarrow> 's env \<Rightarrow> getLockOptions \<Rightarrow> (error + Lock) option \<times> client \<times> 's env" where
  "acquireLoop 0 ctx c e g = (None, c, e)"
| "acquireLoop (Suc n) ctx c e g =
     (case storeLock c e g of
        (Inl err, g', c', e') \<Rightarrow> (Some (Inl err), c', e')
      | (Inr (Some l), g', c', e') \<Rightarrow> (Some (Inr l), c', e')
      | (Inr None, g', c', e') \<Rightarrow>
          (case ctx_Err ctx e' of
             Some err \<Rightarrow> (Some (Inl err), c', e')
           | None \<Rightarrow>
               acquireLoop n ctx c' (e'\<lparr>trace := trace e' @ [Sleep (glo_refreshPeriodDuration g')]\<rparr>) g'))"

definition isClosed :: "client \<Rightarrow> bool" where
  "isClosed c = closed c"

fun contains :: "item \<Rightarrow> string list \<Rightarrow> bool" where
  "contains attrs [] = False"
| "contains attrs (k # ks) = (if attrs k \<noteq> None then True else contains attrs ks)"

text \<open>\<^verbatim>\<open>&acquireLockOptions{partitionKey: partitionKey}\<close> with the options applied in order.\<close>
definition newAcquireLockOptions :: "string \<Rightarrow> AcquireLockOption list \<Rightarrow> acquireLockOptions" where
  "newAcquireLockOptions partitionKey opts =
     foldl (\<lambda>opt f. f opt)
       \<lparr>alo_partitionKey = partitionKey, alo_data = None, alo_replaceData = False,
        alo_failIfLocked = False, alo_deleteLockOnRelease = False,
        alo_refreshPeriod = 0, alo_additionalTimeToWaitForLock = 0,
        alo_additionalAttributes = Map.empty, alo_sessionMonitor = None\<rparr> opts"

text \<open>
  The options of the loop, as \<^verbatim>\<open>acquireLock\<close> sets them up before the first attempt: the
  struct literal, then the two defaults that a positive option replaces.
\<close>
definition newGetLockOptions :: "acquireLockOptions \<Rightarrow> item \<Rightarrow> Time \<Rightarrow> getLockOptions" where
  "newGetLockOptions opt attrs start =
     (let getLockOptions0 =
            \<lparr>glo_partitionKey = alo_partitionKey opt,
             glo_deleteLockOnRelease = alo_deleteLockOnRelease opt,
             glo_sessionMonitor = alo_sessionMonitor opt,
             glo_start = start,
             glo_replaceData = alo_replaceData opt,
             glo_data = alo_data opt,
             glo_additionalAttributes = attrs,
             glo_failIfLocked = alo_failIfLocked opt,
             glo_millisecondsToWait = defaultBuffer,
             glo_refreshPeriodDuration = defaultBuffer,
             glo_lockTryingToBeAcquired = None,
             glo_alreadySleptOnceForOneLeasePeriod = False\<rparr>;
          getLockOptions1 =
            (if alo_additionalTimeToWaitForLock opt > 0
             then getLockOptions0\<lparr>glo_millisecondsToWait := alo_additionalTimeToWaitForLock opt\<rparr>
             else getLockOptions0)
      in if alo_refreshPeriod opt > 0
         then getLockOptions1\<lparr>glo_refreshPeriodDuration := alo_refreshPeriod opt\<rparr>
         else getLockOptions1)"

definition reservedNames :: "client \<Rightarrow> string list" where
  "reservedNames c =
     [partitionKeyName c, attrOwnerName, attrLeaseDuration, attrRecordVersionNumber, attrData]"

text \<open>
  The list \<open>reservedNames\<close> is the argument list of the call of \<^verbatim>\<open>contains\<close>. The flag
  \<^verbatim>\<open>closed\<close> is read twice, first through \<^verbatim>\<open>isClosed\<close> and then under the read lock.
\<close>
definition acquireLock ::
  "nat \<Rightarrow> Context \<Rightarrow> client \<Rightarrow> 's env \<Rightarrow> string \<Rightarrow> AcquireLockOption list
     \<Rightarrow> (error + Lock) option \<times> client \<times> 's env" where
  "acquireLock fuel ctx c e partitionKey opts =
     (if isClosed c then (Some (Inl ErrClientClosed), c, e)
      else
        (let opt = newAcquireLockOptions partitionKey opts
         in if closed c then (Some (Inl ErrClientClosed), c, e)
            else
              (let attrs = alo_additionalAttributes opt
               in if contains attrs (reservedNames c)
                  then (Some (Inl (ErrAdditionalAttribute (partitionKeyName c))), c, e)
                  else
                    (case time_Now e of
                       (start, e1) \<Rightarrow> acquireLoop fuel ctx c e1 (newGetLockOptions opt attrs start)))))"

subsection \<open>The options of an acquisition\<close>

definition WithData :: "bytes \<Rightarrow> AcquireLockOption" where
  "WithData b opt = opt\<lparr>alo_data := b\<rparr>"

definition ReplaceData :: AcquireLockOption where
  "ReplaceData opt = opt\<lparr>alo_replaceData := True\<rparr>"

definition FailIfLocked :: AcquireLockOption where
  "FailIfLocked opt = opt\<lparr>alo_failIfLocked := True\<rparr>"

definition WithDeleteLockOnRelease :: AcquireLockOption where
  "WithDeleteLockOnRelease opt = opt\<lparr>alo_deleteLockOnRelease := True\<rparr>"

definition WithRefreshPeriod :: "Duration \<Rightarrow> AcquireLockOption" where
  "WithRefreshPeriod d opt = opt\<lparr>alo_refreshPeriod := d\<rparr>"

definition WithAdditionalTimeToWaitForLock :: "Duration \<Rightarrow> AcquireLockOption" where
  "WithAdditionalTimeToWaitForLock d opt = opt\<lparr>alo_additionalTimeToWaitForLock := d\<rparr>"

definition WithAdditionalAttributes :: "item \<Rightarrow> AcquireLockOption" where
  "WithAdditionalAttributes attr opt = opt\<lparr>alo_additionalAttributes := attr\<rparr>"

definition WithSessionMonitor :: "Duration \<Rightarrow> callback option \<Rightarrow> AcquireLockOption" where
  "WithSessionMonitor st cb opt = opt\<lparr>alo_sessionMonitor := Some \<lparr>safeTime = st, callback = cb\<rparr>\<rparr>"

section \<open>Release\<close>

definition WithDeleteLock :: "bool \<Rightarrow> ReleaseLockOption" where
  "WithDeleteLock deleteLock opt = opt\<lparr>rlo_deleteLock := deleteLock\<rparr>"

definition WithDataAfterRelease :: "bytes \<Rightarrow> ReleaseLockOption" where
  "WithDataAfterRelease data opt = opt\<lparr>rlo_data := data\<rparr>"

definition ownershipLockCondition :: "string \<Rightarrow> string \<Rightarrow> string \<Rightarrow> ConditionBuilder" where
  "ownershipLockCondition partitionKeyName' recordVersionNumber ownerName' =
     And (And (AttributeExists partitionKeyName')
              (Equal rvnAttr (AttributeValueMemberS recordVersionNumber)))
         (Equal ownerNameAttr (AttributeValueMemberS ownerName'))"

definition getItemKeys :: "client \<Rightarrow> Lock \<Rightarrow> item" where
  "getItemKeys c lockItem = [partitionKeyName c \<mapsto> stringAttrValue (lock_partitionKey lockItem)]"

definition deleteLock :: "client \<Rightarrow> 's env \<Rightarrow> ConditionBuilder \<Rightarrow> item \<Rightarrow> error option \<times> 's env" where
  "deleteLock c e ownershipLockCond key =
     (case call (DeleteItemInput (tableName c) key ownershipLockCond) e of
        (Inl err, e') \<Rightarrow> (Some err, e')
      | (Inr out, e') \<Rightarrow> (None, e'))"

text \<open>\<^verbatim>\<open>len(data) > 0\<close> is false for the nil slice and for the empty one.\<close>
definition updateLock :: "client \<Rightarrow> 's env \<Rightarrow> bytes \<Rightarrow> ConditionBuilder \<Rightarrow> item \<Rightarrow> error option \<times> 's env" where
  "updateLock c e data ownershipLockCond key =
     (let update0 = [(isReleasedAttr, isReleasedAttrVal)];
          update = (if length (case data of None \<Rightarrow> [] | Some b \<Rightarrow> b) > 0
                    then update0 @ [(dataAttr, AttributeValueMemberB data)] else update0)
      in case call (UpdateItemInput (tableName c) key update ownershipLockCond) e of
           (Inl err, e') \<Rightarrow> (Some err, e')
         | (Inr out, e') \<Rightarrow> (None, e'))"

text \<open>
  The result is the error (\<open>None\<close> for nil), the handle as the call leaves it, the client
  and the environment.
\<close>
definition releaseLock ::
  "client \<Rightarrow> 's env \<Rightarrow> Lock option \<Rightarrow> ReleaseLockOption list
     \<Rightarrow> error option \<times> Lock option \<times> client \<times> 's env" where
  "releaseLock c e lockItem opts =
     (let options0 = \<lparr>rlo_lockItem = lockItem, rlo_deleteLock = False, rlo_data = None\<rparr>;
          options1 = (case lockItem of
                        Some l \<Rightarrow> options0\<lparr>rlo_deleteLock := lock_deleteLockOnRelease l\<rparr>
                      | None \<Rightarrow> options0);
          options = foldl (\<lambda>opt f. f opt) options1 opts
      in case lockItem of
           None \<Rightarrow> (Some ErrCannotReleaseNullLock, None, c, e)
         | Some l \<Rightarrow>
             (let deleteLock' = rlo_deleteLock options;
                  data = rlo_data options
              in if lock_ownerName l \<noteq> ownerName c then (Some ErrOwnerMismatched, Some l, c, e)
                 else
                   (let l1 = l\<lparr>lock_isReleased := True\<rparr>;
                        c1 = c\<lparr>locks := AList.delete (uniqueIdentifier l1) (locks c)\<rparr>;
                        key = getItemKeys c1 l1;
                        ownershipLockCond =
                          ownershipLockCondition (partitionKeyName c1) (lock_recordVersionNumber l1)
                            (lock_ownerName l1)
                    in case (if deleteLock' then deleteLock c1 e ownershipLockCond key
                             else updateLock c1 e data ownershipLockCond key) of
                         (Some err, e1) \<Rightarrow> (Some err, Some l1, c1, e1)
                       | (None, e1) \<Rightarrow>
                           (None, Some l1, c1, removeKillSessionMonitor c1 e1 (uniqueIdentifier l1)))))"

text \<open>The first result is \<^verbatim>\<open>err == nil\<close>.\<close>
definition ReleaseLock ::
  "client \<Rightarrow> 's env \<Rightarrow> Lock option \<Rightarrow> ReleaseLockOption list
     \<Rightarrow> (bool \<times> error option) \<times> Lock option \<times> client \<times> 's env" where
  "ReleaseLock c e lockItem opts =
     (if isClosed c then ((False, Some ErrClientClosed), lockItem, c, e)
      else (case releaseLock c e lockItem opts of
              (err, l', c', e') \<Rightarrow> ((err = None, err), l', c', e')))"

text \<open>
  \<^verbatim>\<open>c.locks.Range\<close> with the callback of \<^verbatim>\<open>releaseAllLocks\<close>: the entries are visited in
  the order of the registry, and the visit stops after the first release that returns an
  error. The second argument is the variable \<^verbatim>\<open>err\<close>.
\<close>
fun releaseAllLocks_Range ::
  "(string \<times> Lock) list \<Rightarrow> error option \<Rightarrow> client \<Rightarrow> 's env \<Rightarrow> error option \<times> client \<times> 's env" where
  "releaseAllLocks_Range [] err c e = (err, c, e)"
| "releaseAllLocks_Range ((key, v) # kvs) err c e =
     (case releaseLock c e (Some v) [] of
        (err', l', c', e') \<Rightarrow>
          (if err' = None then releaseAllLocks_Range kvs err' c' e' else (err', c', e')))"

definition releaseAllLocks :: "client \<Rightarrow> 's env \<Rightarrow> error option \<times> client \<times> 's env" where
  "releaseAllLocks c e = releaseAllLocks_Range (locks c) None c e"

section \<open>Get, Close and CreateTable\<close>

definition get :: "Context \<Rightarrow> client \<Rightarrow> 's env \<Rightarrow> string \<Rightarrow> (error + Lock) \<times> 's env" where
  "get ctx c e partitionKey =
     (if isClosed c then (Inl ErrClientClosed, e)
      else
        (case ctx_Err ctx e of
           Some err \<Rightarrow> (Inl err, e)
         | None \<Rightarrow>
             (let getLockOption =
                    \<lparr>glo_partitionKey = partitionKey, glo_deleteLockOnRelease = False,
                     glo_sessionMonitor = None, glo_start = 0, glo_replaceData = False,
                     glo_data = None, glo_additionalAttributes = Map.empty,
                     glo_failIfLocked = False, glo_millisecondsToWait = 0,
                     glo_refreshPeriodDuration = 0, glo_lockTryingToBeAcquired = None,
                     glo_alreadySleptOnceForOneLeasePeriod = False\<rparr>;
                  keyName = glo_partitionKey getLockOption
              in case map_of (locks c) keyName of
                   Some v \<Rightarrow> (Inr v, e)
                 | None \<Rightarrow>
                     (case getLockFromDynamoDB c getLockOption e of
                        (Inl err, e1) \<Rightarrow> (Inl err, e1)
                      | (Inr None, e1) \<Rightarrow> (Inr emptyLock, e1)
                      | (Inr (Some lockItem), e1) \<Rightarrow>
                          (Inr (updateRVN lockItem [] 0 (lock_leaseDuration lockItem)), e1)))))"

text \<open>
  \<^verbatim>\<open>closeOnce.Do\<close> runs its function on the first call only; \<^verbatim>\<open>stopHeartbeat\<close> is the
  cancel function of the heartbeat goroutine, or a function that does nothing when there are
  no heartbeats.
\<close>
definition Close :: "client \<Rightarrow> 's env \<Rightarrow> error option \<times> client \<times> 's env" where
  "Close c e =
     (if closeOnceDone c then (Some ErrClientClosed, c, e)
      else
        (case releaseAllLocks c e of
           (err, c1, e1) \<Rightarrow>
             (err, c1\<lparr>closeOnceDone := True, closed := True\<rparr>,
              e1\<lparr>trace := trace e1 @ [StopHeartbeat]\<rparr>)))"

record createDynamoDBTableOptions =
  billingMode :: BillingMode
  provisionedThroughput :: "(int \<times> int) option"
  tags :: "(string \<times> string) list option"

type_synonym CreateTableOption = "createDynamoDBTableOptions \<Rightarrow> createDynamoDBTableOptions"

type_synonym createTableSchema = "(string \<times> KeyType) list \<times> (string \<times> ScalarAttributeType) list"

definition WithTags :: "(string \<times> string) list option \<Rightarrow> CreateTableOption" where
  "WithTags tags' opt = opt\<lparr>tags := tags'\<rparr>"

definition WithProvisionedThroughput :: "(int \<times> int) option \<Rightarrow> CreateTableOption" where
  "WithProvisionedThroughput pt opt =
     opt\<lparr>billingMode := BillingModeProvisioned, provisionedThroughput := pt\<rparr>"

definition createTable ::
  "client \<Rightarrow> 's env \<Rightarrow> createTableSchema \<Rightarrow> createDynamoDBTableOptions \<Rightarrow> (error + item option) \<times> 's env" where
  "createTable c e cts opt =
     (case cts of
        (keySchema, attributeDefinitions) \<Rightarrow>
          call (CreateTableInput (tableName c) keySchema (billingMode opt) attributeDefinitions
                  (provisionedThroughput opt) (tags opt)) e)"

definition CreateTable ::
  "client \<Rightarrow> 's env \<Rightarrow> createTableSchema \<Rightarrow> CreateTableOption list \<Rightarrow> (error + item option) \<times> 's env" where
  "CreateTable c e cts opts =
     (if isClosed c then (Inl ErrClientClosed, e)
      else
        (let createTableOptions =
               foldl (\<lambda>opt f. f opt)
                 \<lparr>billingMode = BillingModePayPerRequest, provisionedThroughput = None, tags = None\<rparr> opts
         in createTable c e cts createTableOptions))"

section \<open>The client with a sort key (\<^verbatim>\<open>v3/client_sortkey.go\<close>)\<close>

record ClientWithSortKey =
  commonClient :: client
  sortKeyName :: string

definition AcquireLock_sortkey ::
  "nat \<Rightarrow> Context \<Rightarrow> ClientWithSortKey \<Rightarrow> 's env \<Rightarrow> string \<Rightarrow> string \<Rightarrow> AcquireLockOption list
     \<Rightarrow> (error + Lock) option \<times> ClientWithSortKey \<times> 's env" where
  "AcquireLock_sortkey fuel ctx c e partitionKey sortKey opts =
     (case acquireLock fuel ctx (commonClient c) e partitionKey opts of
        (r, c', e') \<Rightarrow> (r, c\<lparr>commonClient := c'\<rparr>, e'))"

definition Get_sortkey :: "Context \<Rightarrow> ClientWithSortKey \<Rightarrow> 's env \<Rightarrow> string \<Rightarrow> string \<Rightarrow> (error + Lock) \<times> 's env" where
  "Get_sortkey ctx c e partitionKey sortKey = get ctx (commonClient c) e partitionKey"

definition createTableSchema_sortkey :: "ClientWithSortKey \<Rightarrow> createTableSchema" where
  "createTableSchema_sortkey c =
     ([(partitionKeyName (commonClient c), KeyTypeHash), (sortKeyName c, KeyTypeRange)],
      [(partitionKeyName (commonClient c), ScalarAttributeTypeS), (sortKeyName c, ScalarAttributeTypeS)])"

definition CreateTable_sortkey ::
  "ClientWithSortKey \<Rightarrow> 's env \<Rightarrow> CreateTableOption list \<Rightarrow> (error + item option) \<times> 's env" where
  "CreateTable_sortkey c e opts = CreateTable (commonClient c) e (createTableSchema_sortkey c) opts"

section \<open>Concrete inputs\<close>

text \<open>
  A client named \<open>A\<close> on table \<open>locks\<close> with partition key attribute \<open>key\<close>, lease 20 s,
  heartbeat 5 s, nothing held; and environments over a store without state, which differ in
  what the store answers.
\<close>
definition clientA :: client where
  "clientA = \<lparr>tableName = ''locks'', partitionKeyName = ''key'',
     leaseDuration = defaultLeaseDuration, heartbeatPeriod = defaultHeartbeatPeriod,
     ownerName = ''A'', locks = [], sessionMonitorCancellations = [],
     closeOnceDone = False, closed = False\<rparr>"

text \<open>An environment whose store answers every request with \<open>answer\<close>; the clock reads \<open>tick\<close>.\<close>
definition envOf :: "(request \<Rightarrow> error + item option) \<Rightarrow> (nat \<Rightarrow> Time) \<Rightarrow> unit env" where
  "envOf answer tick =
     \<lparr>dynamoDB = (\<lambda>req s. (answer req, s)), db = (), trace = [],
      clock = tick, clockReads = 0, entropy = (\<lambda>n. n), entropyReads = 0,
      Duration_String = (\<lambda>d. if d = defaultLeaseDuration then ''20s'' else ''?''),
      ParseDuration = (\<lambda>s. if s = ''20s'' then Some defaultLeaseDuration else None)\<rparr>"

text \<open>A store that answers every read with \<open>onGet\<close> and every other request with \<open>onWrite\<close>.\<close>
definition answerBy :: "(error + item option) \<Rightarrow> (error + item option) \<Rightarrow> request \<Rightarrow> error + item option" where
  "answerBy onGet onWrite req = (case req of GetItemInput cr tn k \<Rightarrow> onGet | _ \<Rightarrow> onWrite)"

text \<open>The options of the loop for key \<open>k\<close> with no option set, started at time 0.\<close>
definition optionsK :: getLockOptions where
  "optionsK = newGetLockOptions (newAcquireLockOptions ''k'' []) Map.empty 0"

text \<open>
  The handle of a lock of owner \<open>B\<close> on key \<open>k\<close> with version \<open>r1\<close> and a lease of 20 s,
  looked up at time 0.
\<close>
definition lockB :: Lock where
  "lockB = \<lparr>lock_partitionKey = ''k'', lock_data = Some [1], lock_deleteLockOnRelease = False,
     lock_ownerName = ''B'', lock_leaseDuration = defaultLeaseDuration, lock_lookupTime = 0,
     lock_recordVersionNumber = ''r1'', lock_isReleased = False,
     lock_additionalAttributes = Map.empty, lock_sessionMonitor = None\<rparr>"

text \<open>A row of owner \<open>B\<close> that is held: no \<open>isReleased\<close> attribute.\<close>
definition rowLive :: item where
  "rowLive = [''key'' \<mapsto> AttributeValueMemberS ''k'', attrOwnerName \<mapsto> AttributeValueMemberS ''B'',
              attrLeaseDuration \<mapsto> AttributeValueMemberS ''20s'',
              attrRecordVersionNumber \<mapsto> AttributeValueMemberS ''r1'',
              attrData \<mapsto> AttributeValueMemberB (Some [1])]"

text \<open>The same row after owner \<open>B\<close> released it without deleting it: the version is unchanged.\<close>
definition rowReleased :: item where
  "rowReleased = rowLive(attrIsReleased \<mapsto> AttributeValueMemberS ''1'')"

text \<open>
  The options of the loop for key \<open>k\<close> after an attempt that saw the live lock of owner
  \<open>B\<close>: the lock is remembered and the budget has been extended.
\<close>
definition optionsInFlight :: getLockOptions where
  "optionsInFlight = optionsK\<lparr>glo_lockTryingToBeAcquired := Some lockB,
     glo_alreadySleptOnceForOneLeasePeriod := True,
     glo_millisecondsToWait := defaultBuffer + defaultLeaseDuration\<rparr>"

section \<open>What each primitive leaves of the environment\<close>

lemma time_Now_env:
  "time_Now e = (t, e') \<Longrightarrow>
     trace e' = trace e \<and> db e' = db e \<and> dynamoDB e' = dynamoDB e \<and> clock e' = clock e \<and>
     clockReads e' = Suc (clockReads e) \<and> entropy e' = entropy e \<and> entropyReads e' = entropyReads e \<and>
     Duration_String e' = Duration_String e \<and> ParseDuration e' = ParseDuration e \<and>
     t = clock e (clockReads e)"
  by (auto simp: time_Now_def)

lemma time_Since_env:
  "time_Since t0 e = (t, e') \<Longrightarrow>
     trace e' = trace e \<and> db e' = db e \<and> dynamoDB e' = dynamoDB e \<and> clock e' = clock e \<and>
     clockReads e' = Suc (clockReads e) \<and> entropy e' = entropy e \<and> entropyReads e' = entropyReads e \<and>
     Duration_String e' = Duration_String e \<and> ParseDuration e' = ParseDuration e \<and>
     t = saturate64 (clock e (clockReads e) - t0)"
  by (auto simp: time_Since_def time_Now_def)

lemma randString_env:
  "randString n e = (s, e') \<Longrightarrow>
     trace e' = trace e \<and> db e' = db e \<and> dynamoDB e' = dynamoDB e \<and> clock e' = clock e \<and>
     clockReads e' = clockReads e \<and> entropy e' = entropy e \<and>
     Duration_String e' = Duration_String e \<and> ParseDuration e' = ParseDuration e"
proof (induction n arbitrary: e s e')
  case 0
  then show ?case by simp
next
  case (Suc n)
  obtain r e1 where r: "rand_Int (length letterRunes) e = (r, e1)" by (cases "rand_Int (length letterRunes) e")
  obtain s2 e2 where s2: "randString n e1 = (s2, e2)" by (cases "randString n e1")
  from Suc.prems r s2 have "e' = e2" by simp
  moreover from r have "trace e1 = trace e \<and> db e1 = db e \<and> dynamoDB e1 = dynamoDB e \<and> clock e1 = clock e \<and>
     clockReads e1 = clockReads e \<and> entropy e1 = entropy e \<and>
     Duration_String e1 = Duration_String e \<and> ParseDuration e1 = ParseDuration e"
    by (auto simp: rand_Int_def)
  ultimately show ?case using Suc.IH[OF s2] by simp
qed

lemma call_env:
  "call req e = (r, e') \<Longrightarrow>
     trace e' = trace e @ [Call req] \<and> dynamoDB e' = dynamoDB e \<and> clock e' = clock e \<and>
     clockReads e' = clockReads e \<and> entropy e' = entropy e \<and> entropyReads e' = entropyReads e \<and>
     Duration_String e' = Duration_String e \<and> ParseDuration e' = ParseDuration e \<and>
     fst (dynamoDB e req (db e)) = r \<and> db e' = snd (dynamoDB e req (db e))"
  by (auto simp: call_def split: prod.splits)


lemma attr_distinct:
  "attrData \<noteq> attrOwnerName" "attrData \<noteq> attrLeaseDuration" "attrData \<noteq> attrRecordVersionNumber"
  "attrData \<noteq> attrIsReleased" "attrOwnerName \<noteq> attrLeaseDuration"
  "attrOwnerName \<noteq> attrRecordVersionNumber" "attrOwnerName \<noteq> attrIsReleased"
  "attrLeaseDuration \<noteq> attrRecordVersionNumber" "attrLeaseDuration \<noteq> attrIsReleased"
  "attrRecordVersionNumber \<noteq> attrIsReleased"
  by (simp_all add: attrData_def attrOwnerName_def attrLeaseDuration_def
        attrRecordVersionNumber_def attrIsReleased_def)

lemma createLockItem_eq:
  "createLockItem c opt row e =
     (case (if readStringAttr (row attrLeaseDuration) \<noteq> []
            then ParseDuration e (readStringAttr (row attrLeaseDuration)) else Some 0) of
        None \<Rightarrow> (Inl (ErrCannotParseLeaseDuration (readStringAttr (row attrLeaseDuration))),
                 e\<lparr>clockReads := Suc (clockReads e)\<rparr>)
      | Some d \<Rightarrow>
          (Inr \<lparr>lock_partitionKey = glo_partitionKey opt,
                lock_data = readBytesAttr (row attrData),
                lock_deleteLockOnRelease = glo_deleteLockOnRelease opt,
                lock_ownerName = readStringAttr (row attrOwnerName),
                lock_leaseDuration = d,
                lock_lookupTime = clock e (clockReads e),
                lock_recordVersionNumber = readStringAttr (row attrRecordVersionNumber),
                lock_isReleased = (row attrIsReleased \<noteq> None),
                lock_additionalAttributes =
                  row(attrData := None, attrOwnerName := None, attrLeaseDuration := None,
                      attrRecordVersionNumber := None, attrIsReleased := None,
                      partitionKeyName c := None),
                lock_sessionMonitor = None\<rparr>,
           e\<lparr>clockReads := Suc (clockReads e)\<rparr>))"
proof (cases "row attrData")
  case None
  then have "row(attrData := None) = row" by (simp add: fun_upd_idem)
  with None show ?thesis
    unfolding createLockItem_def time_Now_def Let_def
    by (simp add: attr_distinct attr_distinct[symmetric] split: option.split)
next
  case (Some r)
  then show ?thesis
    unfolding createLockItem_def time_Now_def Let_def
    by (simp add: attr_distinct attr_distinct[symmetric] split: option.split)
qed

lemma createLockItem_env:
  "createLockItem c opt row e = (r, e') \<Longrightarrow>
     trace e' = trace e \<and> db e' = db e \<and> dynamoDB e' = dynamoDB e \<and> clock e' = clock e \<and>
     clockReads e' = Suc (clockReads e) \<and> entropy e' = entropy e \<and> entropyReads e' = entropyReads e \<and>
     Duration_String e' = Duration_String e \<and> ParseDuration e' = ParseDuration e"
  unfolding createLockItem_eq by (auto split: option.splits)

lemma leaseParses_Some:
  "leaseParses e row \<Longrightarrow>
     \<exists>d. (if readStringAttr (row attrLeaseDuration) \<noteq> []
          then ParseDuration e (readStringAttr (row attrLeaseDuration)) else Some 0) = Some d"
  unfolding leaseParses_def by (auto split: list.splits option.splits)

lemma createLockItem_ok:
  assumes "leaseParses e row"
  shows "\<exists>l e'. createLockItem c opt row e = (Inr l, e') \<and>
           lock_isReleased l = (row attrIsReleased \<noteq> None) \<and>
           lock_recordVersionNumber l = readStringAttr (row attrRecordVersionNumber) \<and>
           lock_data l = readBytesAttr (row attrData) \<and>
           lock_ownerName l = readStringAttr (row attrOwnerName) \<and>
           lock_partitionKey l = glo_partitionKey opt \<and>
           lock_lookupTime l = clock e (clockReads e)"
proof -
  from leaseParses_Some[OF assms] obtain d where
    "(if readStringAttr (row attrLeaseDuration) \<noteq> []
      then ParseDuration e (readStringAttr (row attrLeaseDuration)) else Some 0) = Some d" ..
  then show ?thesis unfolding createLockItem_eq by simp
qed

lemma getLock_env:
  "getLockFromDynamoDB c opt e = (r, e') \<Longrightarrow>
     trace e' = trace e @ [Call (getItemRequest c (glo_partitionKey opt))] \<and>
     dynamoDB e' = dynamoDB e \<and> clock e' = clock e \<and>
     entropy e' = entropy e \<and> entropyReads e' = entropyReads e \<and>
     Duration_String e' = Duration_String e \<and> ParseDuration e' = ParseDuration e \<and>
     db e' = snd (dynamoDB e (getItemRequest c (glo_partitionKey opt)) (db e))"
  unfolding getLockFromDynamoDB_def readFromDynamoDB_def Let_def
  by (auto split: prod.splits sum.splits option.splits dest!: call_env createLockItem_env)

lemma getLock_found:
  assumes "fst (dynamoDB e (getItemRequest c (glo_partitionKey opt)) (db e)) = Inr (Some row)"
      and "leaseParses e row"
  shows "\<exists>l e'. getLockFromDynamoDB c opt e = (Inr (Some l), e') \<and>
           lock_isReleased l = (row attrIsReleased \<noteq> None) \<and>
           lock_recordVersionNumber l = readStringAttr (row attrRecordVersionNumber) \<and>
           lock_data l = readBytesAttr (row attrData)"
proof -
  obtain r e1 where c: "call (getItemRequest c (glo_partitionKey opt)) e = (r, e1)"
    by (cases "call (getItemRequest c (glo_partitionKey opt)) e")
  from call_env[OF c] assms(1) have r: "r = Inr (Some row)" and pd: "ParseDuration e1 = ParseDuration e"
    by simp_all
  from assms(2) have "leaseParses e1 row" unfolding leaseParses_def pd .
  from createLockItem_ok[OF this, of c opt] obtain l e2 where
    "createLockItem c opt row e1 = (Inr l, e2)" "lock_isReleased l = (row attrIsReleased \<noteq> None)"
    "lock_recordVersionNumber l = readStringAttr (row attrRecordVersionNumber)"
    "lock_data l = readBytesAttr (row attrData)"
    by blast
  with c r show ?thesis
    by (simp add: getLockFromDynamoDB_def readFromDynamoDB_def)
qed

lemma generateRecordVersionNumber_env:
  "generateRecordVersionNumber c e = (s, e') \<Longrightarrow>
     trace e' = trace e \<and> db e' = db e \<and> dynamoDB e' = dynamoDB e \<and> clock e' = clock e \<and>
     clockReads e' = clockReads e \<and> entropy e' = entropy e \<and>
     Duration_String e' = Duration_String e \<and> ParseDuration e' = ParseDuration e"
  unfolding generateRecordVersionNumber_def by (rule randString_env)

lemma storeLock_failIfLocked:
  assumes "getLockFromDynamoDB c g e = (Inr (Some ex), e1)"
      and "\<not> lock_isReleased ex"
      and "glo_lockTryingToBeAcquired g = None"
      and "glo_failIfLocked g"
  shows "\<exists>g' e2. storeLock c e g = (Inl (LockNotGrantedError msgNotRetry None), g', c, e2) \<and>
           trace e2 = trace e1"
proof -
  obtain rvn e2 where g: "generateRecordVersionNumber c e1 = (rvn, e2)"
    by (cases "generateRecordVersionNumber c e1")
  from generateRecordVersionNumber_env[OF g] have "trace e2 = trace e1" by simp
  with assms g show ?thesis
    by (simp add: storeLock_def Let_def)
qed



section \<open>The branches of one attempt\<close>

lemma isExpired_env:
  "isExpired l e = (b, e') \<Longrightarrow>
     trace e' = trace e \<and> db e' = db e \<and> dynamoDB e' = dynamoDB e \<and> clock e' = clock e \<and>
     entropy e' = entropy e \<and> entropyReads e' = entropyReads e \<and>
     Duration_String e' = Duration_String e \<and> ParseDuration e' = ParseDuration e"
  unfolding isExpired_def
  by (cases "time_Since (lock_lookupTime l) e") (auto split: if_splits dest!: time_Since_env)

lemma budgetCheck_env:
  "budgetCheck g e = (r, e') \<Longrightarrow>
     trace e' = trace e \<and> db e' = db e \<and> dynamoDB e' = dynamoDB e \<and> clock e' = clock e \<and>
     entropy e' = entropy e \<and> entropyReads e' = entropyReads e \<and>
     Duration_String e' = Duration_String e \<and> ParseDuration e' = ParseDuration e"
  unfolding budgetCheck_def
  by (cases "time_Since (glo_start g) e") (auto split: if_splits dest!: time_Since_env)

lemma tryAddSessionMonitor_cases:
  "tryAddSessionMonitor c e name l = (c', e') \<Longrightarrow>
     (c' = c \<and> e' = e) \<or>
     (c' = c\<lparr>sessionMonitorCancellations := List.insert name (sessionMonitorCancellations c)\<rparr> \<and>
      e' = e\<lparr>trace := trace e @ [SessionMonitorStarted name]\<rparr>)"
  unfolding tryAddSessionMonitor_def by (auto split: option.splits)

lemma putLockItem_cases [consumes 1, case_names storeError stored]:
  assumes "putLockItemAndStartSessionMonitor c e aa pk del dat rvn sm req = (u, c', e')"
  obtains
    (storeError) t e1 err where
      "time_Now e = (t, e1)" "call req e1 = (Inl err, e')"
      "u = Inl (parseDynamoDBError err msgAlreadyAcquired)" "c' = c"
  | (stored) t e1 out e2 l where
      "time_Now e = (t, e1)" "call req e1 = (Inr out, e2)" "u = Inr l"
      "l = \<lparr>lock_partitionKey = pk, lock_data = dat, lock_deleteLockOnRelease = del,
            lock_ownerName = ownerName c, lock_leaseDuration = leaseDuration c,
            lock_lookupTime = t, lock_recordVersionNumber = rvn, lock_isReleased = False,
            lock_additionalAttributes = aa, lock_sessionMonitor = sm\<rparr>"
      "tryAddSessionMonitor (c\<lparr>locks := AList.update (uniqueIdentifier l) l (locks c)\<rparr>) e2
         (uniqueIdentifier l) l = (c', e')"
proof -
  obtain t e1 where t: "time_Now e = (t, e1)" by (cases "time_Now e")
  obtain res e2 where c: "call req e1 = (res, e2)" by (cases "call req e1")
  show thesis
  proof (cases res)
    case (Inl err)
    with assms t c have "u = Inl (parseDynamoDBError err msgAlreadyAcquired)" "c' = c" "e' = e2"
      by (simp_all add: putLockItemAndStartSessionMonitor_def)
    with t c Inl show ?thesis by (intro storeError) simp_all
  next
    case (Inr out)
    define l where "l = \<lparr>lock_partitionKey = pk, lock_data = dat, lock_deleteLockOnRelease = del,
            lock_ownerName = ownerName c, lock_leaseDuration = leaseDuration c,
            lock_lookupTime = t, lock_recordVersionNumber = rvn, lock_isReleased = False,
            lock_additionalAttributes = aa, lock_sessionMonitor = sm\<rparr>"
    obtain c2 e3 where m: "tryAddSessionMonitor (c\<lparr>locks := AList.update (uniqueIdentifier l) l (locks c)\<rparr>) e2
         (uniqueIdentifier l) l = (c2, e3)"
      by (cases "tryAddSessionMonitor (c\<lparr>locks := AList.update (uniqueIdentifier l) l (locks c)\<rparr>) e2
         (uniqueIdentifier l) l")
    with assms t c Inr have "u = Inr l" "c' = c2" "e' = e3"
      by (simp_all add: putLockItemAndStartSessionMonitor_def Let_def l_def)
    with t c Inr m show ?thesis by (intro stored[of t e1 out e2 l]) (simp_all add: l_def)
  qed
qed


lemma storeLock_cases [consumes 1, case_names readError free failIfLocked firstObservation expired notExpired refreshed]:
  assumes "storeLock c e g = (r, g', c', e')"
  obtains
    (readError) err where
      "getLockFromDynamoDB c g e = (Inl err, e')" "r = Inl err" "g' = g" "c' = c"
  | (free) existing e1 rvn e2 u where
      "getLockFromDynamoDB c g e = (Inr existing, e1)"
      "case existing of None \<Rightarrow> True | Some ex \<Rightarrow> lock_isReleased ex"
      "generateRecordVersionNumber c e1 = (rvn, e2)"
      "g' = g\<lparr>glo_additionalAttributes := mergeAdditionalAttributes g existing\<rparr>"
      "upsertAndMonitorNewOrReleasedLock c e2 (glo_additionalAttributes g') (glo_partitionKey g)
         (glo_deleteLockOnRelease g) (newLockDataOf g existing)
         (buildItem c e2 g' rvn (newLockDataOf g existing)) rvn (glo_sessionMonitor g) = (u, c', e')"
      "r = swallowNotGranted u"
  | (failIfLocked) ex e1 rvn where
      "getLockFromDynamoDB c g e = (Inr (Some ex), e1)" "\<not> lock_isReleased ex"
      "glo_lockTryingToBeAcquired g = None" "glo_failIfLocked g"
      "generateRecordVersionNumber c e1 = (rvn, e')"
      "g' = g\<lparr>glo_additionalAttributes := mergeAdditionalAttributes g (Some ex)\<rparr>"
      "r = Inl (LockNotGrantedError msgNotRetry None)" "c' = c"
  | (firstObservation) ex e1 rvn e2 where
      "getLockFromDynamoDB c g e = (Inr (Some ex), e1)" "\<not> lock_isReleased ex"
      "glo_lockTryingToBeAcquired g = None" "\<not> glo_failIfLocked g"
      "generateRecordVersionNumber c e1 = (rvn, e2)"
      "g' = (if \<not> glo_alreadySleptOnceForOneLeasePeriod g
             then g\<lparr>glo_additionalAttributes := mergeAdditionalAttributes g (Some ex),
                    glo_lockTryingToBeAcquired := Some ex,
                    glo_alreadySleptOnceForOneLeasePeriod := True,
                    glo_millisecondsToWait := wrap64 (glo_millisecondsToWait g + lock_leaseDuration ex)\<rparr>
             else g\<lparr>glo_additionalAttributes := mergeAdditionalAttributes g (Some ex),
                    glo_lockTryingToBeAcquired := Some ex\<rparr>)"
      "budgetCheck g' e2 = (r, e')" "c' = c"
  | (expired) ex e1 rvn e2 inFlight e3 u where
      "getLockFromDynamoDB c g e = (Inr (Some ex), e1)" "\<not> lock_isReleased ex"
      "glo_lockTryingToBeAcquired g = Some inFlight"
      "lock_recordVersionNumber inFlight = lock_recordVersionNumber ex"
      "generateRecordVersionNumber c e1 = (rvn, e2)"
      "isExpired inFlight e2 = (True, e3)"
      "g' = g\<lparr>glo_additionalAttributes := mergeAdditionalAttributes g (Some ex)\<rparr>"
      "upsertAndMonitorExpiredLock c e3 (glo_additionalAttributes g') (glo_partitionKey g)
         (glo_deleteLockOnRelease g) ex (newLockDataOf g (Some ex))
         (buildItem c e2 g' rvn (newLockDataOf g (Some ex))) rvn (glo_sessionMonitor g) = (u, c', e')"
      "r = swallowNotGranted u"
  | (notExpired) ex e1 rvn e2 inFlight e3 where
      "getLockFromDynamoDB c g e = (Inr (Some ex), e1)" "\<not> lock_isReleased ex"
      "glo_lockTryingToBeAcquired g = Some inFlight"
      "lock_recordVersionNumber inFlight = lock_recordVersionNumber ex"
      "generateRecordVersionNumber c e1 = (rvn, e2)"
      "isExpired inFlight e2 = (False, e3)"
      "g' = g\<lparr>glo_additionalAttributes := mergeAdditionalAttributes g (Some ex)\<rparr>"
      "budgetCheck g' e3 = (r, e')" "c' = c"
  | (refreshed) ex e1 rvn e2 inFlight where
      "getLockFromDynamoDB c g e = (Inr (Some ex), e1)" "\<not> lock_isReleased ex"
      "glo_lockTryingToBeAcquired g = Some inFlight"
      "lock_recordVersionNumber inFlight \<noteq> lock_recordVersionNumber ex"
      "generateRecordVersionNumber c e1 = (rvn, e2)"
      "g' = g\<lparr>glo_additionalAttributes := mergeAdditionalAttributes g (Some ex),
               glo_lockTryingToBeAcquired := Some ex\<rparr>"
      "budgetCheck g' e2 = (r, e')" "c' = c"
proof -
  obtain res e1 where rd: "getLockFromDynamoDB c g e = (res, e1)"
    by (cases "getLockFromDynamoDB c g e")
  show thesis
  proof (cases res)
    case (Inl err)
    with assms rd show ?thesis by (intro readError[of err]) (simp_all add: storeLock_def)
  next
    case (Inr existing)
    obtain rvn e2 where gen: "generateRecordVersionNumber c e1 = (rvn, e2)"
      by (cases "generateRecordVersionNumber c e1")
    define g1 where "g1 = g\<lparr>glo_additionalAttributes := mergeAdditionalAttributes g existing\<rparr>"
    define dat where "dat = newLockDataOf g existing"
    obtain u cu eu where up: "upsertAndMonitorNewOrReleasedLock c e2 (glo_additionalAttributes g1)
         (glo_partitionKey g) (glo_deleteLockOnRelease g) dat (buildItem c e2 g1 rvn dat) rvn
         (glo_sessionMonitor g) = (u, cu, eu)"
      by (cases "upsertAndMonitorNewOrReleasedLock c e2 (glo_additionalAttributes g1)
         (glo_partitionKey g) (glo_deleteLockOnRelease g) dat (buildItem c e2 g1 rvn dat) rvn
         (glo_sessionMonitor g)")
    have freeCase: thesis if "case existing of None \<Rightarrow> True | Some ex \<Rightarrow> lock_isReleased ex"
    proof -
      from that assms rd Inr gen up
      have "r = swallowNotGranted u" "g' = g1" "c' = cu" "e' = eu"
        by (auto simp: storeLock_def Let_def g1_def dat_def split: option.splits)
      with rd Inr gen up that show thesis
        by (intro free[of existing e1 rvn e2 u]) (simp_all add: g1_def dat_def)
    qed
    show ?thesis
    proof (cases existing)
      case None
      then show ?thesis using freeCase by simp
    next
      case (Some ex)
      show ?thesis
      proof (cases "lock_isReleased ex")
        case True
        with Some show ?thesis using freeCase by simp
      next
        case live: False
        show ?thesis
        proof (cases "glo_lockTryingToBeAcquired g")
          case None
          show ?thesis
          proof (cases "glo_failIfLocked g")
            case True
            with assms rd Inr gen Some live None
            have "r = Inl (LockNotGrantedError msgNotRetry None)" "g' = g1" "c' = c" "e' = e2"
              by (simp_all add: storeLock_def Let_def g1_def)
            with rd Inr gen Some live None True show ?thesis
              by (intro failIfLocked[of ex e1 rvn]) (simp_all add: g1_def)
          next
            case False
            define g3 where "g3 = (if \<not> glo_alreadySleptOnceForOneLeasePeriod g
             then g\<lparr>glo_additionalAttributes := mergeAdditionalAttributes g (Some ex),
                    glo_lockTryingToBeAcquired := Some ex,
                    glo_alreadySleptOnceForOneLeasePeriod := True,
                    glo_millisecondsToWait := wrap64 (glo_millisecondsToWait g + lock_leaseDuration ex)\<rparr>
             else g\<lparr>glo_additionalAttributes := mergeAdditionalAttributes g (Some ex),
                    glo_lockTryingToBeAcquired := Some ex\<rparr>)"
            obtain rb eb where b: "budgetCheck g3 e2 = (rb, eb)" by (cases "budgetCheck g3 e2")
            with assms rd Inr gen Some live None False
            have "r = rb" "g' = g3" "c' = c" "e' = eb"
              by (auto simp: storeLock_def Let_def g3_def split: if_splits)
            with rd Inr gen Some live None False b show ?thesis
              by (intro firstObservation[of ex e1 rvn e2]) (simp_all add: g3_def)
          qed
        next
          case (Some inFlight)
          note inF = this
          show ?thesis
          proof (cases "lock_recordVersionNumber inFlight = lock_recordVersionNumber ex")
            case True
            obtain b e3 where ex: "isExpired inFlight e2 = (b, e3)" by (cases "isExpired inFlight e2")
            show ?thesis
            proof (cases b)
              case True
              obtain u2 cu2 eu2 where up2: "upsertAndMonitorExpiredLock c e3 (glo_additionalAttributes g1)
                 (glo_partitionKey g) (glo_deleteLockOnRelease g) ex dat (buildItem c e2 g1 rvn dat) rvn
                 (glo_sessionMonitor g) = (u2, cu2, eu2)"
                by (cases "upsertAndMonitorExpiredLock c e3 (glo_additionalAttributes g1)
                 (glo_partitionKey g) (glo_deleteLockOnRelease g) ex dat (buildItem c e2 g1 rvn dat) rvn
                 (glo_sessionMonitor g)")
              with assms rd Inr gen \<open>existing = Some ex\<close> live inF \<open>lock_recordVersionNumber inFlight = lock_recordVersionNumber ex\<close> ex True
              have "r = swallowNotGranted u2" "g' = g1" "c' = cu2" "e' = eu2"
                by (simp_all add: storeLock_def Let_def g1_def dat_def)
              with rd Inr gen \<open>existing = Some ex\<close> live inF \<open>lock_recordVersionNumber inFlight = lock_recordVersionNumber ex\<close> ex True up2
              show ?thesis
                by (intro expired[of ex e1 inFlight rvn e2 e3 u2]) (simp_all add: g1_def dat_def)
            next
              case False
              obtain rb eb where b: "budgetCheck g1 e3 = (rb, eb)" by (cases "budgetCheck g1 e3")
              with assms rd Inr gen \<open>existing = Some ex\<close> live inF \<open>lock_recordVersionNumber inFlight = lock_recordVersionNumber ex\<close> ex False
              have "r = rb" "g' = g1" "c' = c" "e' = eb"
                by (simp_all add: storeLock_def Let_def g1_def)
              with rd Inr gen \<open>existing = Some ex\<close> live inF \<open>lock_recordVersionNumber inFlight = lock_recordVersionNumber ex\<close> ex False b
              show ?thesis
                by (intro notExpired[of ex e1 inFlight rvn e2 e3]) (simp_all add: g1_def)
            qed
          next
            case False
            define g2 where "g2 = g\<lparr>glo_additionalAttributes := mergeAdditionalAttributes g (Some ex),
               glo_lockTryingToBeAcquired := Some ex\<rparr>"
            obtain rb eb where b: "budgetCheck g2 e2 = (rb, eb)" by (cases "budgetCheck g2 e2")
            with assms rd Inr gen \<open>existing = Some ex\<close> live inF False
            have "r = rb" "g' = g2" "c' = c" "e' = eb"
              by (simp_all add: storeLock_def Let_def g2_def)
            with rd Inr gen \<open>existing = Some ex\<close> live inF False b show ?thesis
              by (intro refreshed[of ex e1 inFlight rvn e2]) (simp_all add: g2_def)
          qed
        qed
      qed
    qed
  qed
qed

section \<open>FailIfLocked\<close>

text \<open>
  Claim C7. An Acquire call with \<^verbatim>\<open>failIfLocked = true\<close> whose first observation of the row
  is a live lock (the row is present, has no \<open>isReleased\<close> attribute, and decodes) returns
  \<^verbatim>\<open>LockNotGranted\<close> right after that first read: for any positive fuel the call returns
  the error, and all it has done to the outside world is the one \<^verbatim>\<open>GetItem\<close>: no wait
  of a refresh period, no other store call. The client is open and the call passes the
  check of the reserved names; the options leave the partition key as the caller gave it,
  as every option of the package does.
\<close>
theorem C7_failIfLocked_returns_after_first_read:
  assumes "\<not> closed c"
      and "opt = newAcquireLockOptions partitionKey opts"
      and "alo_partitionKey opt = partitionKey"
      and "alo_failIfLocked opt"
      and "\<not> contains (alo_additionalAttributes opt) (reservedNames c)"
      and "fst (dynamoDB e (getItemRequest c partitionKey) (db e)) = Inr (Some row)"
      and "row attrIsReleased = None"
      and "leaseParses e row"
  shows "\<exists>e'. acquireLock (Suc n) ctx c e partitionKey opts =
                 (Some (Inl (LockNotGrantedError msgNotRetry None)), c, e') \<and>
               trace e' = trace e @ [Call (getItemRequest c partitionKey)]"
proof -
  obtain start e1 where t: "time_Now e = (start, e1)" by (cases "time_Now e")
  define g where "g = newGetLockOptions opt (alo_additionalAttributes opt) start"
  have g: "glo_partitionKey g = partitionKey" "glo_failIfLocked g" "glo_lockTryingToBeAcquired g = None"
    using assms(3,4) by (simp_all add: g_def newGetLockOptions_def Let_def)
  from time_Now_env[OF t] have e1: "trace e1 = trace e" "db e1 = db e" "dynamoDB e1 = dynamoDB e"
    "ParseDuration e1 = ParseDuration e" by simp_all
  have "fst (dynamoDB e1 (getItemRequest c (glo_partitionKey g)) (db e1)) = Inr (Some row)"
    using assms(6) e1 g by simp
  moreover have "leaseParses e1 row" using assms(8) unfolding leaseParses_def e1 .
  ultimately obtain ex e2 where
    r: "getLockFromDynamoDB c g e1 = (Inr (Some ex), e2)" and "lock_isReleased ex = (row attrIsReleased \<noteq> None)"
    using getLock_found[of e1 c g row] by blast
  with assms(7) have live: "\<not> lock_isReleased ex" by simp
  from storeLock_failIfLocked[OF r live g(3) g(2)] obtain g' e3 where
    s: "storeLock c e1 g = (Inl (LockNotGrantedError msgNotRetry None), g', c, e3)" and "trace e3 = trace e2"
    by blast
  with getLock_env[OF r] e1 g have tr: "trace e3 = trace e @ [Call (getItemRequest c partitionKey)]"
    by simp
  have "acquireLock (Suc n) ctx c e partitionKey opts = acquireLoop (Suc n) ctx c e1 g"
    using assms(1,2,5) t by (simp add: acquireLock_def isClosed_def g_def Let_def)
  also have "\<dots> = (Some (Inl (LockNotGrantedError msgNotRetry None)), c, e3)"
    using s by simp
  finally show ?thesis using tr by blast
qed

text \<open>
  A witness of C7: client \<open>A\<close> asks for key \<open>k\<close> with \<^verbatim>\<open>FailIfLocked()\<close> while the store
  holds the live row of owner \<open>B\<close>.
\<close>
theorem C7_failIfLocked_witness:
  "\<exists>e'. acquireLock (Suc 0) (\<lambda>n. None) clientA (envOf (\<lambda>req. Inr (Some rowLive)) (\<lambda>n. 0)) ''k'' [FailIfLocked] =
           (Some (Inl (LockNotGrantedError msgNotRetry None)), clientA, e') \<and>
         trace e' = trace (envOf (\<lambda>req. Inr (Some rowLive)) (\<lambda>n. 0)) @ [Call (getItemRequest clientA ''k'')]"
proof (rule C7_failIfLocked_returns_after_first_read[where opt = "newAcquireLockOptions ''k'' [FailIfLocked]" and row = rowLive])
  show "\<not> closed clientA" by (simp add: clientA_def)
  show "newAcquireLockOptions ''k'' [FailIfLocked] = newAcquireLockOptions ''k'' [FailIfLocked]" ..
  show "alo_partitionKey (newAcquireLockOptions ''k'' [FailIfLocked]) = ''k''"
    by (simp add: newAcquireLockOptions_def FailIfLocked_def)
  show "alo_failIfLocked (newAcquireLockOptions ''k'' [FailIfLocked])"
    by (simp add: newAcquireLockOptions_def FailIfLocked_def)
  show "\<not> contains (alo_additionalAttributes (newAcquireLockOptions ''k'' [FailIfLocked])) (reservedNames clientA)"
    by (simp add: newAcquireLockOptions_def FailIfLocked_def reservedNames_def)
  show "fst (dynamoDB (envOf (\<lambda>req. Inr (Some rowLive)) (\<lambda>n. 0)) (getItemRequest clientA ''k'')
          (db (envOf (\<lambda>req. Inr (Some rowLive)) (\<lambda>n. 0)))) = Inr (Some rowLive)"
    by (simp add: envOf_def)
  show "rowLive attrIsReleased = None"
    by (simp add: rowLive_def attrIsReleased_def attrOwnerName_def attrLeaseDuration_def
          attrRecordVersionNumber_def attrData_def)
  show "leaseParses (envOf (\<lambda>req. Inr (Some rowLive)) (\<lambda>n. 0)) rowLive"
    by (simp add: leaseParses_def envOf_def rowLive_def attrIsReleased_def attrOwnerName_def attrLeaseDuration_def
          attrRecordVersionNumber_def attrData_def)
qed

section \<open>What one attempt and the loop leave of the environment and of the client\<close>

lemma tryAddSessionMonitor_env:
  "tryAddSessionMonitor c e name l = (c', e') \<Longrightarrow>
     (trace e' = trace e \<or> trace e' = trace e @ [SessionMonitorStarted name]) \<and>
     db e' = db e \<and> dynamoDB e' = dynamoDB e \<and> clock e' = clock e \<and> clockReads e' = clockReads e \<and>
     entropy e' = entropy e \<and> entropyReads e' = entropyReads e \<and>
     Duration_String e' = Duration_String e \<and> ParseDuration e' = ParseDuration e \<and>
     tableName c' = tableName c \<and> partitionKeyName c' = partitionKeyName c \<and>
     ownerName c' = ownerName c \<and> leaseDuration c' = leaseDuration c \<and>
     closed c' = closed c \<and> closeOnceDone c' = closeOnceDone c \<and> locks c' = locks c"
  by (drule tryAddSessionMonitor_cases) auto

lemma putLockItem_env:
  assumes "putLockItemAndStartSessionMonitor c e aa pk del dat rvn sm req = (u, c', e')"
  shows "(trace e' = trace e @ [Call req] \<or>
          trace e' = trace e @ [Call req, SessionMonitorStarted pk]) \<and>
         dynamoDB e' = dynamoDB e \<and> clock e' = clock e \<and>
         Duration_String e' = Duration_String e \<and> ParseDuration e' = ParseDuration e \<and>
         tableName c' = tableName c \<and> partitionKeyName c' = partitionKeyName c \<and>
         ownerName c' = ownerName c \<and> leaseDuration c' = leaseDuration c \<and>
         closed c' = closed c \<and> closeOnceDone c' = closeOnceDone c"
  using assms
proof (cases rule: putLockItem_cases)
  case (storeError t e1 err)
  from time_Now_env[OF storeError(1)] call_env[OF storeError(2)] storeError(4)
  show ?thesis by simp
next
  case (stored t e1 out e2 l)
  from stored(4) have uid: "uniqueIdentifier l = pk" by (simp add: uniqueIdentifier_def)
  from time_Now_env[OF stored(1)] call_env[OF stored(2)]
    tryAddSessionMonitor_env[OF stored(5)] uid
  show ?thesis by auto
qed

lemma upsertNew_env:
  assumes "upsertAndMonitorNewOrReleasedLock c e aa pk del dat it rvn sm = (u, c', e')"
  shows "(\<exists>evs. trace e' = trace e @ Call (PutItemInput it (tableName c)
                   (Or (AttributeNotExists (partitionKeyName c))
                       (And (AttributeExists (partitionKeyName c))
                            (Equal isReleasedAttr isReleasedAttrVal)))) # evs \<and>
                 (evs = [] \<or> evs = [SessionMonitorStarted pk])) \<and>
         dynamoDB e' = dynamoDB e \<and> clock e' = clock e \<and>
         Duration_String e' = Duration_String e \<and> ParseDuration e' = ParseDuration e \<and>
         tableName c' = tableName c \<and> partitionKeyName c' = partitionKeyName c \<and>
         ownerName c' = ownerName c \<and> leaseDuration c' = leaseDuration c \<and>
         closed c' = closed c \<and> closeOnceDone c' = closeOnceDone c"
  using putLockItem_env[OF assms[unfolded upsertAndMonitorNewOrReleasedLock_def Let_def]]
  by auto

lemma upsertExpired_env:
  assumes "upsertAndMonitorExpiredLock c e aa pk del ex dat it rvn sm = (u, c', e')"
  shows "(\<exists>evs. trace e' = trace e @ Call (PutItemInput it (tableName c)
                   (And (AttributeExists (partitionKeyName c))
                        (Equal rvnAttr (AttributeValueMemberS (lock_recordVersionNumber ex))))) # evs \<and>
                 (evs = [] \<or> evs = [SessionMonitorStarted pk])) \<and>
         dynamoDB e' = dynamoDB e \<and> clock e' = clock e \<and>
         Duration_String e' = Duration_String e \<and> ParseDuration e' = ParseDuration e \<and>
         tableName c' = tableName c \<and> partitionKeyName c' = partitionKeyName c \<and>
         ownerName c' = ownerName c \<and> leaseDuration c' = leaseDuration c \<and>
         closed c' = closed c \<and> closeOnceDone c' = closeOnceDone c"
  using putLockItem_env[OF assms[unfolded upsertAndMonitorExpiredLock_def Let_def]]
  by auto

lemma storeLock_env:
  assumes "storeLock c e g = (r, g', c', e')"
  shows "(\<exists>evs. trace e' = trace e @ Call (getItemRequest c (glo_partitionKey g)) # evs) \<and>
         dynamoDB e' = dynamoDB e \<and> clock e' = clock e \<and>
         Duration_String e' = Duration_String e \<and> ParseDuration e' = ParseDuration e \<and>
         tableName c' = tableName c \<and> partitionKeyName c' = partitionKeyName c \<and>
         ownerName c' = ownerName c \<and> leaseDuration c' = leaseDuration c \<and>
         closed c' = closed c \<and> closeOnceDone c' = closeOnceDone c"
  using assms
proof (cases rule: storeLock_cases)
  case (readError err)
  from getLock_env[OF readError(1)] readError(4) show ?thesis by simp
next
  case (free existing e1 rvn e2 u)
  from getLock_env[OF free(1)] generateRecordVersionNumber_env[OF free(3)] upsertNew_env[OF free(5)]
  show ?thesis by auto
next
  case (failIfLocked ex e1 rvn)
  from getLock_env[OF failIfLocked(1)] generateRecordVersionNumber_env[OF failIfLocked(5)] failIfLocked(8)
  show ?thesis by simp
next
  case (firstObservation ex e1 rvn e2)
  from getLock_env[OF firstObservation(1)] generateRecordVersionNumber_env[OF firstObservation(5)]
    budgetCheck_env[OF firstObservation(7)] firstObservation(8)
  show ?thesis by simp
next
  case (expired ex e1 rvn e2 inFlight e3 u)
  from getLock_env[OF expired(1)] generateRecordVersionNumber_env[OF expired(5)]
    isExpired_env[OF expired(6)] upsertExpired_env[OF expired(8)]
  show ?thesis by auto
next
  case (notExpired ex e1 rvn e2 inFlight e3)
  from getLock_env[OF notExpired(1)] generateRecordVersionNumber_env[OF notExpired(5)]
    isExpired_env[OF notExpired(6)] budgetCheck_env[OF notExpired(8)] notExpired(9)
  show ?thesis by simp
next
  case (refreshed ex e1 rvn e2 inFlight)
  from getLock_env[OF refreshed(1)] generateRecordVersionNumber_env[OF refreshed(5)]
    budgetCheck_env[OF refreshed(7)] refreshed(8)
  show ?thesis by simp
qed


lemma acquireLoop_trace:
  "acquireLoop n ctx c e g = (r, c', e') \<Longrightarrow> \<exists>evs. trace e' = trace e @ evs"
proof (induction n arbitrary: c e g)
  case 0
  then show ?case by simp
next
  case (Suc n)
  obtain r1 g1 c1 e1 where s: "storeLock c e g = (r1, g1, c1, e1)" by (cases "storeLock c e g") auto
  from storeLock_env[OF s] obtain evs1 where t1: "trace e1 = trace e @ evs1" by blast
  show ?case
  proof (cases "r1 = Inr None \<and> ctx_Err ctx e1 = None")
    case True
    with Suc.prems s have "acquireLoop n ctx c1 (e1\<lparr>trace := trace e1 @ [Sleep (glo_refreshPeriodDuration g1)]\<rparr>) g1 = (r, c', e')"
      by simp
    from Suc.IH[OF this] t1 show ?thesis by auto
  next
    case False
    with Suc.prems s have "e' = e1"
      by (auto split: sum.splits option.splits)
    with t1 show ?thesis by blast
  qed
qed

lemma acquireLoop_first_call:
  assumes "acquireLoop (Suc n) ctx c e g = (r, c', e')"
  shows "\<exists>evs. trace e' = trace e @ Call (getItemRequest c (glo_partitionKey g)) # evs"
proof -
  obtain r1 g1 c1 e1 where s: "storeLock c e g = (r1, g1, c1, e1)" by (cases "storeLock c e g") auto
  from storeLock_env[OF s] obtain evs1 where
    t1: "trace e1 = trace e @ Call (getItemRequest c (glo_partitionKey g)) # evs1" by blast
  show ?thesis
  proof (cases "r1 = Inr None \<and> ctx_Err ctx e1 = None")
    case True
    with assms s have "acquireLoop n ctx c1 (e1\<lparr>trace := trace e1 @ [Sleep (glo_refreshPeriodDuration g1)]\<rparr>) g1 = (r, c', e')"
      by simp
    from acquireLoop_trace[OF this] t1 show ?thesis by auto
  next
    case False
    with assms s have "e' = e1"
      by (auto split: sum.splits option.splits)
    with t1 show ?thesis by blast
  qed
qed

section \<open>The check of the reserved names\<close>

lemma contains_iff: "contains attrs ks \<longleftrightarrow> (\<exists>k \<in> set ks. k \<in> dom attrs)"
  by (induction ks) auto

lemma buildItem_reserved:
  assumes "\<not> contains attrs (reservedNames c)" and "k \<in> set (reservedNames c)"
  shows "buildItem c e (g\<lparr>glo_additionalAttributes := m ++ attrs\<rparr>) rvn dat k =
         buildItem c e (g\<lparr>glo_additionalAttributes := m\<rparr>) rvn dat k"
proof -
  from assms have "attrs k = None" by (auto simp: contains_iff)
  then have "(m ++ attrs) k = m k" by (simp add: map_add_def)
  then show ?thesis by (simp add: buildItem_def Let_def)
qed

text \<open>
  Claim C8. On an open client, Acquire returns an immediate error, having issued no store
  call, exactly when the caller's additional attributes contain one of the five reserved
  names: the partition key name, \<open>ownerName\<close>, \<open>leaseDuration\<close>, \<open>recordVersionNumber\<close> or
  \<open>data\<close>. With one of them the call returns the error and leaves client and environment as
  they were; with none of them the call goes on to the store, its first event being the
  read of the row, for any positive fuel and whatever it returns in the end. And with
  none of them, each reserved column of an item that \<^verbatim>\<open>storeLock\<close> builds is what it would be
  had the caller passed no attributes: the caller's attributes never overwrite one.
\<close>
theorem C8_reserved_names_rejected:
  assumes "\<not> closed c"
      and "opt = newAcquireLockOptions partitionKey opts"
      and "attrs = alo_additionalAttributes opt"
  shows "(contains attrs (reservedNames c) \<longleftrightarrow>
            (\<exists>k \<in> {partitionKeyName c, ''ownerName'', ''leaseDuration'', ''recordVersionNumber'', ''data''}.
               k \<in> dom attrs)) \<and>
         (contains attrs (reservedNames c) \<longrightarrow>
            acquireLock (Suc n) ctx c e partitionKey opts =
              (Some (Inl (ErrAdditionalAttribute (partitionKeyName c))), c, e)) \<and>
         (\<not> contains attrs (reservedNames c) \<longrightarrow>
            (\<exists>evs. trace (snd (snd (acquireLock (Suc n) ctx c e partitionKey opts))) =
                     trace e @ Call (getItemRequest c (alo_partitionKey opt)) # evs) \<and>
            (\<forall>k \<in> set (reservedNames c). \<forall>g m e' rvn dat.
               buildItem c e' (g\<lparr>glo_additionalAttributes := m ++ attrs\<rparr>) rvn dat k =
               buildItem c e' (g\<lparr>glo_additionalAttributes := m\<rparr>) rvn dat k))"
proof (intro conjI impI)
  show "contains attrs (reservedNames c) \<longleftrightarrow>
            (\<exists>k \<in> {partitionKeyName c, ''ownerName'', ''leaseDuration'', ''recordVersionNumber'', ''data''}.
               k \<in> dom attrs)"
    by (simp add: contains_iff reservedNames_def attrOwnerName_def attrLeaseDuration_def
          attrRecordVersionNumber_def attrData_def)
next
  assume "contains attrs (reservedNames c)"
  with assms show "acquireLock (Suc n) ctx c e partitionKey opts =
              (Some (Inl (ErrAdditionalAttribute (partitionKeyName c))), c, e)"
    by (simp add: acquireLock_def isClosed_def Let_def)
next
  assume no: "\<not> contains attrs (reservedNames c)"
  obtain start e1 where t: "time_Now e = (start, e1)" by (cases "time_Now e")
  define g where "g = newGetLockOptions opt attrs start"
  have pk: "glo_partitionKey g = alo_partitionKey opt"
    by (simp add: g_def newGetLockOptions_def Let_def)
  obtain r c' e' where a: "acquireLoop (Suc n) ctx c e1 g = (r, c', e')"
    by (cases "acquireLoop (Suc n) ctx c e1 g") auto
  have "acquireLock (Suc n) ctx c e partitionKey opts = acquireLoop (Suc n) ctx c e1 g"
    using assms no t by (simp add: acquireLock_def isClosed_def g_def Let_def)
  with a have "snd (snd (acquireLock (Suc n) ctx c e partitionKey opts)) = e'" by simp
  moreover from acquireLoop_first_call[OF a] time_Now_env[OF t] pk
  have "\<exists>evs. trace e' = trace e @ Call (getItemRequest c (alo_partitionKey opt)) # evs" by simp
  ultimately show "\<exists>evs. trace (snd (snd (acquireLock (Suc n) ctx c e partitionKey opts))) =
                     trace e @ Call (getItemRequest c (alo_partitionKey opt)) # evs"
    by simp
  show "\<forall>k \<in> set (reservedNames c). \<forall>g m e' rvn dat.
               buildItem c e' (g\<lparr>glo_additionalAttributes := m ++ attrs\<rparr>) rvn dat k =
               buildItem c e' (g\<lparr>glo_additionalAttributes := m\<rparr>) rvn dat k"
    using buildItem_reserved[OF no] by blast
qed

text \<open>A witness of C8: the caller passes an attribute named \<open>ownerName\<close>.\<close>
theorem C8_reserved_names_witness:
  "acquireLock (Suc 0) (\<lambda>n. None) clientA (envOf (\<lambda>req. Inr None) (\<lambda>n. 0)) ''k''
     [WithAdditionalAttributes [''ownerName'' \<mapsto> AttributeValueMemberS ''C'']] =
   (Some (Inl (ErrAdditionalAttribute ''key'')), clientA, envOf (\<lambda>req. Inr None) (\<lambda>n. 0))"
proof -
  have open': "\<not> closed clientA" by (simp add: clientA_def)
  have attrs: "[''ownerName'' \<mapsto> AttributeValueMemberS ''C''] =
      alo_additionalAttributes (newAcquireLockOptions ''k''
        [WithAdditionalAttributes [''ownerName'' \<mapsto> AttributeValueMemberS ''C'']])"
    by (simp add: newAcquireLockOptions_def WithAdditionalAttributes_def)
  have hit: "contains [''ownerName'' \<mapsto> AttributeValueMemberS ''C''] (reservedNames clientA)"
    by (simp add: reservedNames_def attrOwnerName_def)
  have name: "partitionKeyName clientA = ''key''" by (simp add: clientA_def)
  from C8_reserved_names_rejected[OF open' refl attrs, of 0 "\<lambda>n. None" "envOf (\<lambda>req. Inr None) (\<lambda>n. 0)"] hit
  show ?thesis unfolding name by blast
qed

section \<open>The sort key\<close>

text \<open>
  Claim C9. The client with a sort key drops the \<open>sortKey\<close> argument of \<^verbatim>\<open>AcquireLock\<close> and
  of \<^verbatim>\<open>Get\<close>: for any two sort keys the two calls return the same result and leave the same
  client and the same environment, the trace of store operations included. The read of the
  row asks the store for one request whose key has the partition key attribute only.
\<close>
theorem C9_sort_key_ignored:
  "AcquireLock_sortkey fuel ctx c e partitionKey s1 opts =
     AcquireLock_sortkey fuel ctx c e partitionKey s2 opts \<and>
   Get_sortkey ctx c e partitionKey s1 = Get_sortkey ctx c e partitionKey s2 \<and>
   fst (readFromDynamoDB (commonClient c) partitionKey e) =
     fst (dynamoDB e (getItemRequest (commonClient c) partitionKey) (db e)) \<and>
   trace (snd (readFromDynamoDB (commonClient c) partitionKey e)) =
     trace e @ [Call (getItemRequest (commonClient c) partitionKey)] \<and>
   dom (Key (getItemRequest (commonClient c) partitionKey)) = {partitionKeyName (commonClient c)}"
  by (simp add: AcquireLock_sortkey_def Get_sortkey_def readFromDynamoDB_def call_def Let_def
        split: prod.split)

section \<open>What an attempt returns and what it asks of the store\<close>

lemma buildItem_env:
  "Duration_String e' = Duration_String e \<Longrightarrow> buildItem c e' g rvn dat = buildItem c e g rvn dat"
  by (simp add: buildItem_def)

lemma putLockItem_failed:
  assumes "putLockItemAndStartSessionMonitor c e aa pk del dat rvn sm req = (u, c', e')"
      and "fst (dynamoDB e req (db e)) = Inl err"
  shows "u = Inl (parseDynamoDBError err msgAlreadyAcquired) \<and> c' = c \<and>
         trace e' = trace e @ [Call req]"
  using assms(1)
proof (cases rule: putLockItem_cases)
  case (storeError t e1 err')
  from time_Now_env[OF storeError(1)] call_env[OF storeError(2)] assms(2) storeError(3,4)
  show ?thesis by simp
next
  case (stored t e1 out e2 l)
  from time_Now_env[OF stored(1)] call_env[OF stored(2)] assms(2)
  show ?thesis by simp
qed

lemma putLockItem_granted:
  assumes "putLockItemAndStartSessionMonitor c e aa pk del dat rvn sm req = (Inr l, c', e')"
  shows "l = \<lparr>lock_partitionKey = pk, lock_data = dat, lock_deleteLockOnRelease = del,
              lock_ownerName = ownerName c, lock_leaseDuration = leaseDuration c,
              lock_lookupTime = clock e (clockReads e), lock_recordVersionNumber = rvn,
              lock_isReleased = False, lock_additionalAttributes = aa,
              lock_sessionMonitor = sm\<rparr> \<and>
         map_of (locks c') pk = Some l \<and>
         (\<exists>out. fst (dynamoDB e req (db e)) = Inr out)"
  using assms
proof (cases rule: putLockItem_cases)
  case (storeError t e1 err)
  then show ?thesis by simp
next
  case (stored t e1 out e2 l')
  from stored(3) have ll: "l' = l" by simp
  from stored(4) have uid: "uniqueIdentifier l' = pk" by (simp add: uniqueIdentifier_def)
  from tryAddSessionMonitor_env[OF stored(5)] uid
  have "map_of (locks c') pk = Some l'" by (simp add: update_conv')
  with time_Now_env[OF stored(1)] call_env[OF stored(2)] stored(4) ll
  show ?thesis by auto
qed

lemma swallowNotGranted_Some:
  "swallowNotGranted u = Inr (Some l) \<longleftrightarrow> u = Inr l"
  "Inr (Some l) = swallowNotGranted u \<longleftrightarrow> u = Inr l"
  by (auto simp: swallowNotGranted_def split: sum.splits)

lemma budgetCheck_cases:
  "budgetCheck g e = (r, e') \<Longrightarrow>
     (r = Inr None \<and> \<not> saturate64 (clock e (clockReads e) - glo_start g) > glo_millisecondsToWait g) \<or>
     (r = Inl (LockNotGrantedError msgAfterSleeping
                 (Some (TimeoutError (saturate64 (clock e (clockReads e) - glo_start g))))) \<and>
      saturate64 (clock e (clockReads e) - glo_start g) > glo_millisecondsToWait g)"
  by (auto simp: budgetCheck_def time_Since_def time_Now_def split: if_splits)

lemma storeLock_granted:
  assumes "storeLock c e g = (Inr (Some l), g', c', e')"
      and "getLockFromDynamoDB c g e = (Inr existing, e1)"
  shows "lock_data l = newLockDataOf g existing \<and>
         lock_recordVersionNumber l = fst (generateRecordVersionNumber c e1) \<and>
         lock_ownerName l = ownerName c \<and> lock_leaseDuration l = leaseDuration c \<and>
         lock_partitionKey l = glo_partitionKey g \<and> \<not> lock_isReleased l \<and>
         lock_additionalAttributes l = mergeAdditionalAttributes g existing \<and>
         lock_deleteLockOnRelease l = glo_deleteLockOnRelease g \<and>
         lock_sessionMonitor l = glo_sessionMonitor g \<and>
         map_of (locks c') (glo_partitionKey g) = Some l"
  using assms(1)
proof (cases rule: storeLock_cases)
  case (readError err)
  then show ?thesis by simp
next
  case (free existing' e1' rvn e2 u)
  from free(1) assms(2) have eq: "existing' = existing" "e1' = e1" by simp_all
  from free(6) have "u = Inr l" by (simp add: swallowNotGranted_Some)
  with free(5) have "putLockItemAndStartSessionMonitor c e2 (glo_additionalAttributes g') (glo_partitionKey g)
      (glo_deleteLockOnRelease g) (newLockDataOf g existing')
      rvn (glo_sessionMonitor g)
      (PutItemInput (buildItem c e2 g' rvn (newLockDataOf g existing')) (tableName c)
         (Or (AttributeNotExists (partitionKeyName c))
             (And (AttributeExists (partitionKeyName c)) (Equal isReleasedAttr isReleasedAttrVal)))) = (Inr l, c', e')"
    by (simp add: upsertAndMonitorNewOrReleasedLock_def Let_def)
  from putLockItem_granted[OF this] free(3,4) eq show ?thesis by simp
next
  case (failIfLocked ex e1 rvn)
  then show ?thesis by simp
next
  case (firstObservation ex e1 rvn e2)
  from budgetCheck_cases[OF firstObservation(7)] show ?thesis by simp
next
  case (expired ex e1' rvn e2 inFlight e3 u)
  from expired(1) assms(2) have eq: "existing = Some ex" "e1' = e1" by simp_all
  from expired(9) have "u = Inr l" by (simp add: swallowNotGranted_Some)
  with expired(8) have "putLockItemAndStartSessionMonitor c e3 (glo_additionalAttributes g') (glo_partitionKey g)
      (glo_deleteLockOnRelease g) (newLockDataOf g (Some ex))
      rvn (glo_sessionMonitor g)
      (PutItemInput (buildItem c e2 g' rvn (newLockDataOf g (Some ex))) (tableName c)
         (And (AttributeExists (partitionKeyName c))
              (Equal rvnAttr (AttributeValueMemberS (lock_recordVersionNumber ex))))) = (Inr l, c', e')"
    by (simp add: upsertAndMonitorExpiredLock_def Let_def)
  from putLockItem_granted[OF this] expired(5,7) eq show ?thesis by simp
next
  case (notExpired ex e1 rvn e2 inFlight e3)
  from budgetCheck_cases[OF notExpired(8)] show ?thesis by simp
next
  case (refreshed ex e1 rvn e2 inFlight)
  from budgetCheck_cases[OF refreshed(7)] show ?thesis by simp
qed

lemma storeLock_shape:
  assumes "storeLock c e g = (r, g', c', e')"
  shows "trace e' = trace e @ [Call (getItemRequest c (glo_partitionKey g))] \<or>
         (\<exists>existing e1 cond mon.
            getLockFromDynamoDB c g e = (Inr existing, e1) \<and>
            g' = g\<lparr>glo_additionalAttributes := mergeAdditionalAttributes g existing\<rparr> \<and>
            trace e' = trace e @
              Call (getItemRequest c (glo_partitionKey g)) #
              Call (PutItemInput
                      (buildItem c e1 g' (fst (generateRecordVersionNumber c e1))
                         (newLockDataOf g existing))
                      (tableName c) cond) # mon \<and>
            (mon = [] \<or> mon = [SessionMonitorStarted (glo_partitionKey g)]))"
  using assms
proof (cases rule: storeLock_cases)
  case (readError err)
  from getLock_env[OF readError(1)] show ?thesis by simp
next
  case (free existing e1 rvn e2 u)
  have b: "buildItem c e2 g' rvn (newLockDataOf g existing) =
           buildItem c e1 g' (fst (generateRecordVersionNumber c e1)) (newLockDataOf g existing)"
    using free(3) generateRecordVersionNumber_env[OF free(3)]
      buildItem_env[of e2 e1 c g' rvn "newLockDataOf g existing"] by simp
  from upsertNew_env[OF free(5)] obtain mon where
    m: "trace e' = trace e2 @ Call (PutItemInput (buildItem c e2 g' rvn (newLockDataOf g existing)) (tableName c)
                   (Or (AttributeNotExists (partitionKeyName c))
                       (And (AttributeExists (partitionKeyName c))
                            (Equal isReleasedAttr isReleasedAttrVal)))) # mon"
       "mon = [] \<or> mon = [SessionMonitorStarted (glo_partitionKey g)]" by blast
  from m(1) getLock_env[OF free(1)] generateRecordVersionNumber_env[OF free(3)] b
  have "trace e' = trace e @
              Call (getItemRequest c (glo_partitionKey g)) #
              Call (PutItemInput
                      (buildItem c e1 g' (fst (generateRecordVersionNumber c e1))
                         (newLockDataOf g existing))
                      (tableName c) (Or (AttributeNotExists (partitionKeyName c))
                       (And (AttributeExists (partitionKeyName c))
                            (Equal isReleasedAttr isReleasedAttrVal)))) # mon"
    by simp
  with free(1,4) m(2) show ?thesis by blast
next
  case (failIfLocked ex e1 rvn)
  from getLock_env[OF failIfLocked(1)] generateRecordVersionNumber_env[OF failIfLocked(5)]
  show ?thesis by simp
next
  case (firstObservation ex e1 rvn e2)
  from getLock_env[OF firstObservation(1)] generateRecordVersionNumber_env[OF firstObservation(5)]
    budgetCheck_env[OF firstObservation(7)]
  show ?thesis by simp
next
  case (expired ex e1 rvn e2 inFlight e3 u)
  have b: "buildItem c e2 g' rvn (newLockDataOf g (Some ex)) =
           buildItem c e1 g' (fst (generateRecordVersionNumber c e1)) (newLockDataOf g (Some ex))"
    using expired(5) generateRecordVersionNumber_env[OF expired(5)]
      buildItem_env[of e2 e1 c g' rvn "newLockDataOf g (Some ex)"] by simp
  from upsertExpired_env[OF expired(8)] obtain mon where
    m: "trace e' = trace e3 @ Call (PutItemInput (buildItem c e2 g' rvn (newLockDataOf g (Some ex))) (tableName c)
                   (And (AttributeExists (partitionKeyName c))
                        (Equal rvnAttr (AttributeValueMemberS (lock_recordVersionNumber ex))))) # mon"
       "mon = [] \<or> mon = [SessionMonitorStarted (glo_partitionKey g)]" by blast
  from m(1) getLock_env[OF expired(1)] generateRecordVersionNumber_env[OF expired(5)]
    isExpired_env[OF expired(6)] b
  have "trace e' = trace e @
              Call (getItemRequest c (glo_partitionKey g)) #
              Call (PutItemInput
                      (buildItem c e1 g' (fst (generateRecordVersionNumber c e1))
                         (newLockDataOf g (Some ex)))
                      (tableName c) (And (AttributeExists (partitionKeyName c))
                        (Equal rvnAttr (AttributeValueMemberS (lock_recordVersionNumber ex))))) # mon"
    by simp
  with expired(1,7) m(2) show ?thesis by blast
next
  case (notExpired ex e1 rvn e2 inFlight e3)
  from getLock_env[OF notExpired(1)] generateRecordVersionNumber_env[OF notExpired(5)]
    isExpired_env[OF notExpired(6)] budgetCheck_env[OF notExpired(8)]
  show ?thesis by simp
next
  case (refreshed ex e1 rvn e2 inFlight)
  from getLock_env[OF refreshed(1)] generateRecordVersionNumber_env[OF refreshed(5)]
    budgetCheck_env[OF refreshed(7)]
  show ?thesis by simp
qed

section \<open>The two conditional puts\<close>

lemma parseDynamoDBError_swallowed:
  "swallowNotGranted (Inl (parseDynamoDBError ConditionalCheckFailedException msg)) = Inr None"
  by (simp add: swallowNotGranted_def parseDynamoDBError_def)

lemma putLockItem_stored:
  assumes "putLockItemAndStartSessionMonitor c e aa pk del dat rvn sm req = (u, c', e')"
      and "fst (dynamoDB e req (db e)) = Inr out"
  shows "\<exists>l. u = Inr l"
  using assms(1)
proof (cases rule: putLockItem_cases)
  case (storeError t e1 err)
  from time_Now_env[OF storeError(1)] call_env[OF storeError(2)] assms(2)
  show ?thesis by simp
next
  case (stored t e1 out e2 l)
  then show ?thesis by simp
qed

lemma putLockItem_no_monitor:
  assumes "putLockItemAndStartSessionMonitor c e aa pk del dat rvn None req = (u, c', e')"
  shows "trace e' = trace e @ [Call req]"
  using assms
proof (cases rule: putLockItem_cases)
  case (storeError t e1 err)
  from time_Now_env[OF storeError(1)] call_env[OF storeError(2)]
  show ?thesis by simp
next
  case (stored t e1 out e2 l)
  from stored(4,5) have "e' = e2" by (simp add: tryAddSessionMonitor_def)
  with time_Now_env[OF stored(1)] call_env[OF stored(2)]
  show ?thesis by simp
qed

text \<open>The put of an attempt, as a function of the read that started it.\<close>

lemma storeLock_free:
  assumes read: "getLockFromDynamoDB c g e = (Inr existing, e1)"
      and free: "case existing of None \<Rightarrow> True | Some ex \<Rightarrow> lock_isReleased ex"
      and att: "storeLock c e g = (r, g', c', e')"
      and put: "put = PutItemInput
                  (buildItem c e1 g' (fst (generateRecordVersionNumber c e1)) (newLockDataOf g existing))
                  (tableName c)
                  (Or (AttributeNotExists (partitionKeyName c))
                      (And (AttributeExists (partitionKeyName c))
                           (Equal isReleasedAttr isReleasedAttrVal)))"
  shows "g' = g\<lparr>glo_additionalAttributes := mergeAdditionalAttributes g existing\<rparr>"
    and "trace e' = trace e1 @ [Call put] \<or>
         trace e' = trace e1 @ [Call put, SessionMonitorStarted (glo_partitionKey g)]"
    and "glo_sessionMonitor g = None \<Longrightarrow> trace e' = trace e1 @ [Call put]"
    and "fst (dynamoDB e put (db e1)) = Inl ConditionalCheckFailedException \<Longrightarrow>
           r = Inr None \<and> c' = c \<and> trace e' = trace e1 @ [Call put]"
    and "fst (dynamoDB e put (db e1)) = Inr out \<Longrightarrow> \<exists>l. r = Inr (Some l)"
proof -
  from att obtain rvn e2 u where
      gen: "generateRecordVersionNumber c e1 = (rvn, e2)"
    and g': "g' = g\<lparr>glo_additionalAttributes := mergeAdditionalAttributes g existing\<rparr>"
    and up: "upsertAndMonitorNewOrReleasedLock c e2 (glo_additionalAttributes g') (glo_partitionKey g)
         (glo_deleteLockOnRelease g) (newLockDataOf g existing)
         (buildItem c e2 g' rvn (newLockDataOf g existing)) rvn (glo_sessionMonitor g) = (u, c', e')"
    and r: "r = swallowNotGranted u"
  proof (cases rule: storeLock_cases)
    case (free existing' e1' rvn e2 u)
    with read that show ?thesis by simp
  qed (use read free in simp_all)
  from generateRecordVersionNumber_env[OF gen] getLock_env[OF read]
  have env: "trace e2 = trace e1" "db e2 = db e1" "dynamoDB e2 = dynamoDB e"
    "Duration_String e2 = Duration_String e1" by simp_all
  have "buildItem c e2 g' rvn (newLockDataOf g existing) =
        buildItem c e1 g' (fst (generateRecordVersionNumber c e1)) (newLockDataOf g existing)"
    using gen env(4) buildItem_env[of e2 e1 c g' rvn "newLockDataOf g existing"] by simp
  with up put have pl: "putLockItemAndStartSessionMonitor c e2 (glo_additionalAttributes g') (glo_partitionKey g)
         (glo_deleteLockOnRelease g) (newLockDataOf g existing) rvn (glo_sessionMonitor g) put = (u, c', e')"
    by (simp add: upsertAndMonitorNewOrReleasedLock_def Let_def)
  show "g' = g\<lparr>glo_additionalAttributes := mergeAdditionalAttributes g existing\<rparr>" by (rule g')
  from putLockItem_env[OF pl] env(1)
  show "trace e' = trace e1 @ [Call put] \<or>
        trace e' = trace e1 @ [Call put, SessionMonitorStarted (glo_partitionKey g)]" by simp
  show "trace e' = trace e1 @ [Call put]" if "glo_sessionMonitor g = None"
    using putLockItem_no_monitor[OF pl[unfolded that]] env(1) by simp
  show "r = Inr None \<and> c' = c \<and> trace e' = trace e1 @ [Call put]"
    if "fst (dynamoDB e put (db e1)) = Inl ConditionalCheckFailedException"
  proof -
    from that env have "fst (dynamoDB e2 put (db e2)) = Inl ConditionalCheckFailedException" by simp
    from putLockItem_failed[OF pl this] r env(1) show ?thesis
      by (simp add: parseDynamoDBError_swallowed)
  qed
  show "\<exists>l. r = Inr (Some l)" if "fst (dynamoDB e put (db e1)) = Inr out"
  proof -
    from that env have "fst (dynamoDB e2 put (db e2)) = Inr out" by simp
    from putLockItem_stored[OF pl this] r show ?thesis
      by (auto simp: swallowNotGranted_def)
  qed
qed

lemma isExpired_fst:
  "fst (isExpired l e) \<longleftrightarrow>
     lock_isReleased l \<or> saturate64 (clock e (clockReads e) - lock_lookupTime l) \<ge> lock_leaseDuration l"
  by (simp add: isExpired_def time_Since_def time_Now_def)

lemma storeLock_expired:
  assumes read: "getLockFromDynamoDB c g e = (Inr (Some ex), e1)"
      and live: "\<not> lock_isReleased ex"
      and inflight: "glo_lockTryingToBeAcquired g = Some inFlight"
      and same: "lock_recordVersionNumber inFlight = lock_recordVersionNumber ex"
      and exp: "fst (isExpired inFlight e1)"
      and att: "storeLock c e g = (r, g', c', e')"
      and put: "put = PutItemInput
                  (buildItem c e1 g' (fst (generateRecordVersionNumber c e1)) (newLockDataOf g (Some ex)))
                  (tableName c)
                  (And (AttributeExists (partitionKeyName c))
                       (Equal rvnAttr (AttributeValueMemberS (lock_recordVersionNumber ex))))"
  shows "g' = g\<lparr>glo_additionalAttributes := mergeAdditionalAttributes g (Some ex)\<rparr>"
    and "trace e' = trace e1 @ [Call put] \<or>
         trace e' = trace e1 @ [Call put, SessionMonitorStarted (glo_partitionKey g)]"
    and "glo_sessionMonitor g = None \<Longrightarrow> trace e' = trace e1 @ [Call put]"
    and "fst (dynamoDB e put (db e1)) = Inl ConditionalCheckFailedException \<Longrightarrow>
           r = Inr None \<and> c' = c \<and> trace e' = trace e1 @ [Call put]"
    and "fst (dynamoDB e put (db e1)) = Inr out \<Longrightarrow> \<exists>l. r = Inr (Some l)"
proof -
  from att obtain rvn e2 e3 u where
      gen: "generateRecordVersionNumber c e1 = (rvn, e2)"
    and ex3: "isExpired inFlight e2 = (True, e3)"
    and g': "g' = g\<lparr>glo_additionalAttributes := mergeAdditionalAttributes g (Some ex)\<rparr>"
    and up: "upsertAndMonitorExpiredLock c e3 (glo_additionalAttributes g') (glo_partitionKey g)
         (glo_deleteLockOnRelease g) ex (newLockDataOf g (Some ex))
         (buildItem c e2 g' rvn (newLockDataOf g (Some ex))) rvn (glo_sessionMonitor g) = (u, c', e')"
    and r: "r = swallowNotGranted u"
  proof (cases rule: storeLock_cases)
    case (expired ex' e1' rvn e2 inFlight' e3 u)
    with read inflight that show ?thesis by simp
  next
    case (notExpired ex' e1' rvn e2 inFlight' e3)
    with read inflight have eq: "e1' = e1" "inFlight' = inFlight" by simp_all
    from generateRecordVersionNumber_env[OF notExpired(5)] eq
    have "fst (isExpired inFlight e2) = fst (isExpired inFlight e1)" by (simp add: isExpired_fst)
    with exp notExpired(6) eq show ?thesis by simp
  next
    case (free existing' e1' rvn e2 u)
    with read live show ?thesis by auto
  qed (use read live inflight same in simp_all)
  from generateRecordVersionNumber_env[OF gen] getLock_env[OF read] isExpired_env[OF ex3]
  have env: "trace e3 = trace e1" "db e3 = db e1" "dynamoDB e3 = dynamoDB e"
    "Duration_String e2 = Duration_String e1" by simp_all
  have "buildItem c e2 g' rvn (newLockDataOf g (Some ex)) =
        buildItem c e1 g' (fst (generateRecordVersionNumber c e1)) (newLockDataOf g (Some ex))"
    using gen env(4) buildItem_env[of e2 e1 c g' rvn "newLockDataOf g (Some ex)"] by simp
  with up put have pl: "putLockItemAndStartSessionMonitor c e3 (glo_additionalAttributes g') (glo_partitionKey g)
         (glo_deleteLockOnRelease g) (newLockDataOf g (Some ex)) rvn (glo_sessionMonitor g) put = (u, c', e')"
    by (simp add: upsertAndMonitorExpiredLock_def Let_def)
  show "g' = g\<lparr>glo_additionalAttributes := mergeAdditionalAttributes g (Some ex)\<rparr>" by (rule g')
  from putLockItem_env[OF pl] env(1)
  show "trace e' = trace e1 @ [Call put] \<or>
        trace e' = trace e1 @ [Call put, SessionMonitorStarted (glo_partitionKey g)]" by simp
  show "trace e' = trace e1 @ [Call put]" if "glo_sessionMonitor g = None"
    using putLockItem_no_monitor[OF pl[unfolded that]] env(1) by simp
  show "r = Inr None \<and> c' = c \<and> trace e' = trace e1 @ [Call put]"
    if "fst (dynamoDB e put (db e1)) = Inl ConditionalCheckFailedException"
  proof -
    from that env have "fst (dynamoDB e3 put (db e3)) = Inl ConditionalCheckFailedException" by simp
    from putLockItem_failed[OF pl this] r env(1) show ?thesis
      by (simp add: parseDynamoDBError_swallowed)
  qed
  show "\<exists>l. r = Inr (Some l)" if "fst (dynamoDB e put (db e1)) = Inr out"
  proof -
    from that env have "fst (dynamoDB e3 put (db e3)) = Inr out" by simp
    from putLockItem_stored[OF pl this] r show ?thesis
      by (auto simp: swallowNotGranted_def)
  qed
qed

lemma acquireLoop_retry:
  assumes "storeLock c e g = (Inr None, g', c', e')"
  shows "acquireLoop (Suc n) ctx c e g =
           (case ctx_Err ctx e' of
              Some err \<Rightarrow> (Some (Inl err), c', e')
            | None \<Rightarrow> acquireLoop n ctx c' (e'\<lparr>trace := trace e' @ [Sleep (glo_refreshPeriodDuration g')]\<rparr>) g')"
  using assms by simp

text \<open>
  Claim C2. In an attempt whose strongly consistent read finds no row, or a row marked
  \<open>isReleased\<close>, the engine issues one conditional put, of the item it built, whose
  condition is (the partition key attribute does not exist) OR (the partition key attribute
  exists AND \<open>isReleased\<close> is set, which the code tests as \<open>isReleased = "1"\<close>, the value a
  release writes). The put is the only store call after the read. When the store answers
  it with a condition-check failure, the attempt returns no lock and no error, leaves the
  client as it was, and the loop goes on: it waits for a refresh period and makes the next
  attempt, unless the context is done by then.
\<close>
theorem C2_new_or_released_put:
  assumes "getLockFromDynamoDB c g e = (Inr existing, e1)"
      and "existing = None \<or> (\<exists>ex. existing = Some ex \<and> lock_isReleased ex)"
      and "storeLock c e g = (r, g', c', e')"
      and "put = PutItemInput
                  (buildItem c e1 g' (fst (generateRecordVersionNumber c e1)) (newLockDataOf g existing))
                  (tableName c)
                  (Or (AttributeNotExists (partitionKeyName c))
                      (And (AttributeExists (partitionKeyName c))
                           (Equal ''isReleased'' (AttributeValueMemberS ''1''))))"
  shows "(trace e' = trace e1 @ [Call put] \<or>
          trace e' = trace e1 @ [Call put, SessionMonitorStarted (glo_partitionKey g)]) \<and>
         (fst (dynamoDB e put (db e1)) = Inl ConditionalCheckFailedException \<longrightarrow>
            r = Inr None \<and> c' = c \<and> trace e' = trace e1 @ [Call put] \<and>
            (\<forall>n ctx. acquireLoop (Suc n) ctx c e g =
               (case ctx_Err ctx e' of
                  Some err \<Rightarrow> (Some (Inl err), c', e')
                | None \<Rightarrow> acquireLoop n ctx c'
                            (e'\<lparr>trace := trace e' @ [Sleep (glo_refreshPeriodDuration g')]\<rparr>) g')))"
proof -
  from assms(2) have free: "case existing of None \<Rightarrow> True | Some ex \<Rightarrow> lock_isReleased ex"
    by auto
  from assms(4) have put: "put = PutItemInput
                  (buildItem c e1 g' (fst (generateRecordVersionNumber c e1)) (newLockDataOf g existing))
                  (tableName c)
                  (Or (AttributeNotExists (partitionKeyName c))
                      (And (AttributeExists (partitionKeyName c))
                           (Equal isReleasedAttr isReleasedAttrVal)))"
    by (simp add: isReleasedAttr_def isReleasedAttrVal_def attrIsReleased_def)
  note f = storeLock_free[OF assms(1) free assms(3) put]
  show ?thesis
  proof (intro conjI impI allI)
    show "trace e' = trace e1 @ [Call put] \<or>
          trace e' = trace e1 @ [Call put, SessionMonitorStarted (glo_partitionKey g)]" by (rule f(2))
  next
    assume ccf: "fst (dynamoDB e put (db e1)) = Inl ConditionalCheckFailedException"
    from f(4)[OF ccf] show "r = Inr None" "c' = c" "trace e' = trace e1 @ [Call put]" by simp_all
    fix n ctx
    from f(4)[OF ccf] assms(3) have "storeLock c e g = (Inr None, g', c', e')" by simp
    from acquireLoop_retry[OF this]
    show "acquireLoop (Suc n) ctx c e g =
               (case ctx_Err ctx e' of
                  Some err \<Rightarrow> (Some (Inl err), c', e')
                | None \<Rightarrow> acquireLoop n ctx c'
                            (e'\<lparr>trace := trace e' @ [Sleep (glo_refreshPeriodDuration g')]\<rparr>) g')" .
  qed
qed

text \<open>
  A witness of C2: there is no row for key \<open>k\<close> and the store refuses the put with a
  condition-check failure.
\<close>
theorem C2_new_or_released_witness:
  "fst (storeLock clientA (envOf (answerBy (Inr None) (Inl ConditionalCheckFailedException)) (\<lambda>n. 0)) optionsK)
     = Inr None"
proof -
  let ?e = "envOf (answerBy (Inr None) (Inl ConditionalCheckFailedException)) (\<lambda>n. 0)"
  obtain e1 where rd: "getLockFromDynamoDB clientA optionsK ?e = (Inr None, e1)"
    by (simp add: getLockFromDynamoDB_def readFromDynamoDB_def call_def envOf_def answerBy_def)
  obtain r g' c' e' where st: "storeLock clientA ?e optionsK = (r, g', c', e')"
    by (cases "storeLock clientA ?e optionsK") auto
  have ccf: "fst (dynamoDB ?e put (db e1)) = Inl ConditionalCheckFailedException"
    if "put = PutItemInput it tn cond" for put it tn cond
    using that by (simp add: envOf_def answerBy_def)
  from C2_new_or_released_put[OF rd _ st refl] ccf[OF refl] have "r = Inr None" by blast
  with st show ?thesis by simp
qed

text \<open>
  Claim C1, as amended. In an attempt in which a contending lock was observed before
  (\<open>inFlight\<close>), the current read returns a row that is not marked released and whose version
  equals that of \<open>inFlight\<close>, and \<open>inFlight\<close> is expired, the engine issues one conditional put
  whose condition is exactly (the partition key attribute exists) AND (the stored
  \<open>recordVersionNumber\<close> equals the version observed before). On a condition-check failure
  the attempt returns no lock and no error and the loop goes on; when the store accepts the
  put, the handle returned carries the freshly generated version, which is also the one
  written in the item, and the client's owner name and lease duration, and is registered.
\<close>
theorem C1_expired_takeover_put:
  assumes "getLockFromDynamoDB c g e = (Inr (Some ex), e1)"
      and "\<not> lock_isReleased ex"
      and "glo_lockTryingToBeAcquired g = Some inFlight"
      and "lock_recordVersionNumber ex = lock_recordVersionNumber inFlight"
      and "fst (isExpired inFlight e1)"
      and "storeLock c e g = (r, g', c', e')"
      and "rvn = fst (generateRecordVersionNumber c e1)"
      and "put = PutItemInput (buildItem c e1 g' rvn (newLockDataOf g (Some ex))) (tableName c)
                   (And (AttributeExists (partitionKeyName c))
                        (Equal ''recordVersionNumber''
                           (AttributeValueMemberS (lock_recordVersionNumber inFlight))))"
  shows "(trace e' = trace e1 @ [Call put] \<or>
          trace e' = trace e1 @ [Call put, SessionMonitorStarted (glo_partitionKey g)]) \<and>
         (fst (dynamoDB e put (db e1)) = Inl ConditionalCheckFailedException \<longrightarrow>
            r = Inr None \<and> c' = c \<and> trace e' = trace e1 @ [Call put] \<and>
            (\<forall>n ctx. acquireLoop (Suc n) ctx c e g =
               (case ctx_Err ctx e' of
                  Some err \<Rightarrow> (Some (Inl err), c', e')
                | None \<Rightarrow> acquireLoop n ctx c'
                            (e'\<lparr>trace := trace e' @ [Sleep (glo_refreshPeriodDuration g')]\<rparr>) g'))) \<and>
         (\<forall>out. fst (dynamoDB e put (db e1)) = Inr out \<longrightarrow>
            (\<exists>l. r = Inr (Some l) \<and> lock_recordVersionNumber l = rvn \<and>
                 lock_ownerName l = ownerName c \<and> lock_leaseDuration l = leaseDuration c \<and>
                 map_of (locks c') (glo_partitionKey g) = Some l)) \<and>
         Item put ''recordVersionNumber'' = Some (AttributeValueMemberS rvn)"
proof -
  from assms(4,7,8) have put: "put = PutItemInput
                  (buildItem c e1 g' (fst (generateRecordVersionNumber c e1)) (newLockDataOf g (Some ex)))
                  (tableName c)
                  (And (AttributeExists (partitionKeyName c))
                       (Equal rvnAttr (AttributeValueMemberS (lock_recordVersionNumber ex))))"
    by (simp add: rvnAttr_def attrRecordVersionNumber_def)
  note f = storeLock_expired[OF assms(1,2,3) assms(4)[symmetric] assms(5,6) put]
  show ?thesis
  proof (intro conjI impI allI)
    show "trace e' = trace e1 @ [Call put] \<or>
          trace e' = trace e1 @ [Call put, SessionMonitorStarted (glo_partitionKey g)]" by (rule f(2))
  next
    assume ccf: "fst (dynamoDB e put (db e1)) = Inl ConditionalCheckFailedException"
    from f(4)[OF ccf] show "r = Inr None" "c' = c" "trace e' = trace e1 @ [Call put]" by simp_all
    fix n ctx
    from f(4)[OF ccf] assms(6) have "storeLock c e g = (Inr None, g', c', e')" by simp
    from acquireLoop_retry[OF this]
    show "acquireLoop (Suc n) ctx c e g =
               (case ctx_Err ctx e' of
                  Some err \<Rightarrow> (Some (Inl err), c', e')
                | None \<Rightarrow> acquireLoop n ctx c'
                            (e'\<lparr>trace := trace e' @ [Sleep (glo_refreshPeriodDuration g')]\<rparr>) g')" .
  next
    fix out assume "fst (dynamoDB e put (db e1)) = Inr out"
    from f(5)[OF this] obtain l where l: "r = Inr (Some l)" ..
    with assms(6) have "storeLock c e g = (Inr (Some l), g', c', e')" by simp
    from storeLock_granted[OF this assms(1)] l assms(7)
    show "\<exists>l. r = Inr (Some l) \<and> lock_recordVersionNumber l = rvn \<and>
                 lock_ownerName l = ownerName c \<and> lock_leaseDuration l = leaseDuration c \<and>
                 map_of (locks c') (glo_partitionKey g) = Some l"
      by simp
  next
    show "Item put ''recordVersionNumber'' = Some (AttributeValueMemberS rvn)"
      unfolding assms(8)
      by (simp add: buildItem_def Let_def attrRecordVersionNumber_def attrData_def stringAttrValue_def)
  qed
qed

text \<open>
  A witness of C1: the row of owner \<open>B\<close> still has version \<open>r1\<close>, 30 s after it was
  first seen with a lease of 20 s, and the store accepts the put.
\<close>
theorem C1_expired_takeover_witness:
  "\<exists>l. fst (storeLock clientA (envOf (answerBy (Inr (Some rowLive)) (Inr None)) (\<lambda>n. 30 * Second))
              optionsInFlight) = Inr (Some l) \<and>
       lock_ownerName l = ''A'' \<and> lock_leaseDuration l = defaultLeaseDuration"
proof -
  let ?e = "envOf (answerBy (Inr (Some rowLive)) (Inr None)) (\<lambda>n. 30 * Second)"
  have "fst (dynamoDB ?e (getItemRequest clientA (glo_partitionKey optionsInFlight)) (db ?e)) = Inr (Some rowLive)"
    by (simp add: envOf_def answerBy_def)
  moreover have "leaseParses ?e rowLive"
    by (simp add: leaseParses_def envOf_def rowLive_def attrIsReleased_def attrOwnerName_def
          attrLeaseDuration_def attrRecordVersionNumber_def attrData_def)
  ultimately obtain ex e1 where
      rd: "getLockFromDynamoDB clientA optionsInFlight ?e = (Inr (Some ex), e1)"
    and rel: "lock_isReleased ex = (rowLive attrIsReleased \<noteq> None)"
    and rvn: "lock_recordVersionNumber ex = readStringAttr (rowLive attrRecordVersionNumber)"
    using getLock_found[of ?e clientA optionsInFlight rowLive] by blast
  from rel have live: "\<not> lock_isReleased ex"
    by (simp add: rowLive_def attrIsReleased_def attrOwnerName_def
          attrLeaseDuration_def attrRecordVersionNumber_def attrData_def)
  have inflight: "glo_lockTryingToBeAcquired optionsInFlight = Some lockB"
    by (simp add: optionsInFlight_def)
  from rvn have same: "lock_recordVersionNumber ex = lock_recordVersionNumber lockB"
    by (simp add: rowLive_def lockB_def attrIsReleased_def attrOwnerName_def
          attrLeaseDuration_def attrRecordVersionNumber_def attrData_def)
  from getLock_env[OF rd] have e1: "clock e1 = (\<lambda>n. 30 * Second)" "db e1 = ()"
    by (simp_all add: envOf_def)
  have exp: "fst (isExpired lockB e1)"
    by (simp add: isExpired_fst e1 lockB_def saturate64_def Second_def defaultLeaseDuration_def)
  obtain r g' c' e' where st: "storeLock clientA ?e optionsInFlight = (r, g', c', e')"
    by (cases "storeLock clientA ?e optionsInFlight") auto
  have ok: "fst (dynamoDB ?e put (db e1)) = Inr None"
    if "put = PutItemInput it tn cond" for put it tn cond
    using that by (simp add: envOf_def answerBy_def)
  from C1_expired_takeover_put[OF rd live inflight same exp st refl refl] ok[OF refl]
  obtain l where "r = Inr (Some l)" "lock_ownerName l = ownerName clientA"
    "lock_leaseDuration l = leaseDuration clientA" by blast
  with st show ?thesis by (simp add: clientA_def)
qed

text \<open>
  Claim C1 as it was stated fails when the row has been released in between: a release
  that keeps the row sets \<open>isReleased\<close> and leaves the version as it is. The lock of owner
  \<open>B\<close> was observed, the current read returns a row of the same version, the observed lock
  is expired, and yet the put that \<^verbatim>\<open>storeLock\<close> issues carries the condition of the new or
  released case, not the condition on the version: the test for a released row comes first.
\<close>
theorem C1_released_row_counterexample:
  "\<exists>ex e1 it.
     getLockFromDynamoDB clientA optionsInFlight
       (envOf (answerBy (Inr (Some rowReleased)) (Inr None)) (\<lambda>n. 30 * Second)) = (Inr (Some ex), e1) \<and>
     glo_lockTryingToBeAcquired optionsInFlight = Some lockB \<and>
     lock_recordVersionNumber ex = lock_recordVersionNumber lockB \<and>
     fst (isExpired lockB e1) \<and>
     trace (snd (snd (snd (storeLock clientA
       (envOf (answerBy (Inr (Some rowReleased)) (Inr None)) (\<lambda>n. 30 * Second)) optionsInFlight)))) =
       [Call (getItemRequest clientA ''k''),
        Call (PutItemInput it ''locks''
                (Or (AttributeNotExists ''key'')
                    (And (AttributeExists ''key'')
                         (Equal ''isReleased'' (AttributeValueMemberS ''1'')))))]"
proof -
  let ?e = "envOf (answerBy (Inr (Some rowReleased)) (Inr None)) (\<lambda>n. 30 * Second)"
  have "fst (dynamoDB ?e (getItemRequest clientA (glo_partitionKey optionsInFlight)) (db ?e)) = Inr (Some rowReleased)"
    by (simp add: envOf_def answerBy_def)
  moreover have "leaseParses ?e rowReleased"
    by (simp add: leaseParses_def envOf_def rowReleased_def rowLive_def attrIsReleased_def attrOwnerName_def
          attrLeaseDuration_def attrRecordVersionNumber_def attrData_def)
  ultimately obtain ex e1 where
      rd: "getLockFromDynamoDB clientA optionsInFlight ?e = (Inr (Some ex), e1)"
    and rel: "lock_isReleased ex = (rowReleased attrIsReleased \<noteq> None)"
    and rvn: "lock_recordVersionNumber ex = readStringAttr (rowReleased attrRecordVersionNumber)"
    using getLock_found[of ?e clientA optionsInFlight rowReleased] by blast
  from rel have released: "lock_isReleased ex" by (simp add: rowReleased_def)
  have inflight: "glo_lockTryingToBeAcquired optionsInFlight = Some lockB"
    by (simp add: optionsInFlight_def)
  from rvn have same: "lock_recordVersionNumber ex = lock_recordVersionNumber lockB"
    by (simp add: rowReleased_def rowLive_def lockB_def attrIsReleased_def attrOwnerName_def
          attrLeaseDuration_def attrRecordVersionNumber_def attrData_def)
  have pk: "glo_partitionKey optionsInFlight = ''k''" "glo_sessionMonitor optionsInFlight = None"
    by (simp_all add: optionsInFlight_def optionsK_def newGetLockOptions_def newAcquireLockOptions_def Let_def)
  from getLock_env[OF rd] pk have e1: "clock e1 = (\<lambda>n. 30 * Second)"
    "trace e1 = [Call (getItemRequest clientA ''k'')]"
    by (simp_all add: envOf_def)
  have exp: "fst (isExpired lockB e1)"
    by (simp add: isExpired_fst e1 lockB_def saturate64_def Second_def defaultLeaseDuration_def)
  obtain r g' c' e' where st: "storeLock clientA ?e optionsInFlight = (r, g', c', e')"
    by (cases "storeLock clientA ?e optionsInFlight") auto
  from released have free: "case Some ex of None \<Rightarrow> True | Some x \<Rightarrow> lock_isReleased x" by simp
  from storeLock_free(3)[OF rd free st refl pk(2)] e1(2)
  have "trace e' = [Call (getItemRequest clientA ''k''),
        Call (PutItemInput (buildItem clientA e1 g' (fst (generateRecordVersionNumber clientA e1))
                (newLockDataOf optionsInFlight (Some ex))) ''locks''
                (Or (AttributeNotExists ''key'')
                    (And (AttributeExists ''key'')
                         (Equal ''isReleased'' (AttributeValueMemberS ''1'')))))]"
    by (simp add: clientA_def isReleasedAttr_def isReleasedAttrVal_def attrIsReleased_def)
  with st rd inflight same exp show ?thesis by auto
qed

end
